theory Spec2Isabelle
  imports Complex_Main "HOL-Library.AList"
begin

section \<open>JavaScript numbers\<close>

text \<open>
  A JavaScript \<open>number\<close> is modelled as an exact real or one of the three special
  IEEE values. Arithmetic on finite values is exact (rounding and overflow of the
  64-bit format are not modelled, and the two zeros are identified, a zero divisor
  counting as \<open>+0\<close>); arithmetic on special values follows IEEE 754 as ECMAScript
  prescribes it, so a division by zero and an empty \<open>Math.max()\<close> are what the
  program computes.
\<close>

datatype jsnum = NaN | NInf | PInf | Fin real

fun jneg :: "jsnum \<Rightarrow> jsnum" where
  "jneg NaN = NaN"
| "jneg NInf = PInf"
| "jneg PInf = NInf"
| "jneg (Fin a) = Fin (- a)"

fun jadd :: "jsnum \<Rightarrow> jsnum \<Rightarrow> jsnum" where
  "jadd NaN _ = NaN"
| "jadd _ NaN = NaN"
| "jadd PInf NInf = NaN"
| "jadd NInf PInf = NaN"
| "jadd PInf _ = PInf"
| "jadd _ PInf = PInf"
| "jadd NInf _ = NInf"
| "jadd _ NInf = NInf"
| "jadd (Fin a) (Fin b) = Fin (a + b)"

definition jsub :: "jsnum \<Rightarrow> jsnum \<Rightarrow> jsnum" where
  "jsub a b = jadd a (jneg b)"

fun jmul :: "jsnum \<Rightarrow> jsnum \<Rightarrow> jsnum" where
  "jmul NaN _ = NaN"
| "jmul _ NaN = NaN"
| "jmul (Fin a) (Fin b) = Fin (a * b)"
| "jmul (Fin a) PInf = (if a = 0 then NaN else if 0 < a then PInf else NInf)"
| "jmul (Fin a) NInf = (if a = 0 then NaN else if 0 < a then NInf else PInf)"
| "jmul PInf (Fin b) = (if b = 0 then NaN else if 0 < b then PInf else NInf)"
| "jmul NInf (Fin b) = (if b = 0 then NaN else if 0 < b then NInf else PInf)"
| "jmul PInf PInf = PInf"
| "jmul PInf NInf = NInf"
| "jmul NInf PInf = NInf"
| "jmul NInf NInf = PInf"

fun jdiv :: "jsnum \<Rightarrow> jsnum \<Rightarrow> jsnum" where
  "jdiv NaN _ = NaN"
| "jdiv _ NaN = NaN"
| "jdiv (Fin a) (Fin b) =
     (if b = 0 then (if a = 0 then NaN else if 0 < a then PInf else NInf)
      else Fin (a / b))"
| "jdiv (Fin a) PInf = Fin 0"
| "jdiv (Fin a) NInf = Fin 0"
| "jdiv PInf (Fin b) = (if 0 \<le> b then PInf else NInf)"
| "jdiv NInf (Fin b) = (if 0 \<le> b then NInf else PInf)"
| "jdiv PInf PInf = NaN"
| "jdiv PInf NInf = NaN"
| "jdiv NInf PInf = NaN"
| "jdiv NInf NInf = NaN"

text \<open>\<open>Math.sqrt\<close>, \<open>Math.abs\<close> and \<open>Math.pow(x, 2)\<close>.\<close>

fun jsqrt :: "jsnum \<Rightarrow> jsnum" where
  "jsqrt NaN = NaN"
| "jsqrt NInf = NaN"
| "jsqrt PInf = PInf"
| "jsqrt (Fin a) = (if a < 0 then NaN else Fin (sqrt a))"

fun jabs :: "jsnum \<Rightarrow> jsnum" where
  "jabs NaN = NaN"
| "jabs NInf = PInf"
| "jabs PInf = PInf"
| "jabs (Fin a) = Fin \<bar>a\<bar>"

fun jpow2 :: "jsnum \<Rightarrow> jsnum" where
  "jpow2 NaN = NaN"
| "jpow2 NInf = PInf"
| "jpow2 PInf = PInf"
| "jpow2 (Fin a) = Fin (a * a)"

text \<open>\<open>Math.max(a, b)\<close> and \<open>Math.min(a, b)\<close>: \<open>NaN\<close> as soon as one argument is.\<close>

fun jmax2 :: "jsnum \<Rightarrow> jsnum \<Rightarrow> jsnum" where
  "jmax2 NaN _ = NaN"
| "jmax2 _ NaN = NaN"
| "jmax2 PInf _ = PInf"
| "jmax2 _ PInf = PInf"
| "jmax2 NInf b = b"
| "jmax2 a NInf = a"
| "jmax2 (Fin a) (Fin b) = Fin (max a b)"

fun jmin2 :: "jsnum \<Rightarrow> jsnum \<Rightarrow> jsnum" where
  "jmin2 NaN _ = NaN"
| "jmin2 _ NaN = NaN"
| "jmin2 NInf _ = NInf"
| "jmin2 _ NInf = NInf"
| "jmin2 PInf b = b"
| "jmin2 a PInf = a"
| "jmin2 (Fin a) (Fin b) = Fin (min a b)"

text \<open>\<open>Math.max(...xs)\<close>: the maximum of no argument is \<open>-Infinity\<close>.\<close>

definition jmax_list :: "jsnum list \<Rightarrow> jsnum" where
  "jmax_list xs = foldl jmax2 NInf xs"

text \<open>The comparison \<open>a > b\<close>: false as soon as one side is \<open>NaN\<close>.\<close>

fun jgt :: "jsnum \<Rightarrow> jsnum \<Rightarrow> bool" where
  "jgt NaN _ = False"
| "jgt _ NaN = False"
| "jgt PInf PInf = False"
| "jgt PInf _ = True"
| "jgt NInf _ = False"
| "jgt (Fin a) PInf = False"
| "jgt (Fin a) NInf = True"
| "jgt (Fin a) (Fin b) = (b < a)"

text \<open>Truthiness of a number: \<open>0\<close> and \<open>NaN\<close> are falsy.\<close>

definition num_truthy :: "jsnum \<Rightarrow> bool" where
  "num_truthy x = (x \<noteq> NaN \<and> x \<noteq> Fin 0)"

text \<open>\<open>xs.reduce((a, b) => a + b, 0)\<close>.\<close>

definition jsum :: "jsnum list \<Rightarrow> jsnum" where
  "jsum xs = foldl jadd (Fin 0) xs"

text \<open>
  \<open>obj[name] || d\<close> for an object of numbers, an association list in insertion order:
  the default replaces a missing entry, and a zero or \<open>NaN\<close> entry as well.
\<close>

definition lookup_or :: "(string \<times> jsnum) list \<Rightarrow> string \<Rightarrow> jsnum \<Rightarrow> jsnum" where
  "lookup_or obj name d =
     (case map_of obj name of
        None \<Rightarrow> d
      | Some x \<Rightarrow> if num_truthy x then x else d)"

section \<open>The ensemble prediction engine\<close>

record Pollutants =
  pm25 :: jsnum
  pm10 :: jsnum
  no2 :: jsnum
  so2 :: jsnum
  o3 :: jsnum
  co :: jsnum

record WeatherData =
  temperature :: jsnum
  humidity :: jsnum
  windSpeed :: jsnum
  windDirection :: jsnum

record PredictionInput =
  currentAqi :: jsnum
  pollutants :: Pollutants
  weatherData :: WeatherData
  historicalData :: "jsnum list option"
  timeOfDay :: jsnum
  dayOfWeek :: jsnum

record EnsembleResult =
  prediction :: jsnum
  confidence :: jsnum
  uncertainty :: jsnum
  confidenceInterval :: "jsnum \<times> jsnum"

record PredictionResult =
  r_predictedAqi :: jsnum
  r_confidence :: jsnum
  r_uncertainty :: jsnum
  r_modelPredictions :: "(string \<times> jsnum) list"
  r_confidenceInterval :: "jsnum \<times> jsnum"

text \<open>
  \<open>computeEnsemblePrediction\<close>. The first loop runs over \<open>Object.entries(modelPredictions)\<close>
  and accumulates \<open>weightedSum\<close> and \<open>totalWeight\<close>; \<open>weigh\<close> is its body.
\<close>

definition weigh ::
  "(string \<times> jsnum) list \<Rightarrow> jsnum \<times> jsnum \<Rightarrow> string \<times> jsnum \<Rightarrow> jsnum \<times> jsnum" where
  "weigh modelUncertainties acc entry =
     (let (weightedSum, totalWeight) = acc;
          (name, pred) = entry;
          unc = lookup_or modelUncertainties name (Fin 25);
          weight = jdiv (Fin 1) (jadd (Fin 1) (jdiv unc (Fin 50)))
      in (jadd weightedSum (jmul pred weight), jadd totalWeight weight))"

definition computeEnsemblePrediction ::
  "(string \<times> jsnum) list \<Rightarrow> (string \<times> jsnum) list \<Rightarrow> jsnum list \<Rightarrow> EnsembleResult" where
  "computeEnsemblePrediction modelPredictions modelUncertainties predictions =
     (let (weightedSum, totalWeight) =
            foldl (weigh modelUncertainties) (Fin 0, Fin 0) modelPredictions;
          ensemblePrediction = jdiv weightedSum totalWeight;
          individualVariances = map (\<lambda>pred. jpow2 (jsub pred ensemblePrediction)) predictions;
          meanVariance = jdiv (jsum individualVariances) (Fin (real (length individualVariances)));
          ensembleUncertainty = jsqrt meanVariance;
          maxDeviation = jmax_list (map (\<lambda>p. jabs (jsub p ensemblePrediction)) predictions);
          agreementFactor = jmax2 (Fin 0) (jsub (Fin 1) (jdiv maxDeviation (Fin 100)));
          conf = jmax2 (Fin (1 / 10))
                   (jmin2 (Fin (95 / 100))
                      (jmul agreementFactor (jsub (Fin 1) (jdiv ensembleUncertainty (Fin 100)))));
          zScore = Fin (196 / 100);
          margin = jmul zScore ensembleUncertainty
      in \<lparr> prediction = ensemblePrediction,
           confidence = conf,
           uncertainty = ensembleUncertainty,
           confidenceInterval =
             (jmax2 (Fin 0) (jsub ensemblePrediction margin), jadd ensemblePrediction margin) \<rparr>)"

text \<open>
  One pass of the sampling loop of \<open>monteCarloPrediction\<close>: the model's output plus the
  random noise, or a throw of the model call, which the loop's own \<open>catch\<close> turns into
  the sample 0.
\<close>

datatype sample_run = Sampled jsnum | SampleThrows

fun sample_value :: "sample_run \<Rightarrow> jsnum" where
  "sample_value (Sampled v) = v"
| "sample_value SampleThrows = Fin 0"

text \<open>
  \<open>monteCarloPrediction\<close> returns the mean and the population standard deviation of
  its samples (the engine draws ten); no throw of the model leaves it.
\<close>

definition monteCarloPrediction :: "sample_run list \<Rightarrow> jsnum \<times> jsnum" where
  "monteCarloPrediction runs =
     (let samples = map sample_value runs;
          mean = jdiv (jsum samples) (Fin (real (length samples)));
          variance = jdiv (foldl (\<lambda>acc val. jadd acc (jpow2 (jsub val mean))) (Fin 0) samples)
                          (Fin (real (length samples)))
      in (mean, jsqrt variance))"

text \<open>
  What the runtime does when \<open>predict\<close> asks one model for its prediction: a TensorFlow
  model goes through the sampling loop; an ONNX session yields \<open>results.output.data[0]\<close>
  or throws.
\<close>

datatype model_run = LayersRun "sample_run list" | OnnxRun jsnum | OnnxThrows

text \<open>
  The body of the \<open>try\<close> block of \<open>predict\<close>: the prediction and uncertainty, or \<open>None\<close>
  for a throw, which only the ONNX branch can make.
\<close>

fun try_model :: "PredictionInput \<Rightarrow> model_run \<Rightarrow> (jsnum \<times> jsnum) option" where
  "try_model input (LayersRun runs) = Some (monteCarloPrediction runs)"
| "try_model input (OnnxRun p) =
     Some (p, jmul (jabs (jsub p (currentAqi input))) (Fin (2 / 10)))"
| "try_model input OnnxThrows = None"

text \<open>
  The prediction and the uncertainty that one iteration of the loop over \<open>this.models\<close>
  records for its model: those of the \<open>try\<close> block, or the current AQI with the default
  uncertainty 25 of the \<open>catch\<close> block.
\<close>

definition model_estimate :: "PredictionInput \<Rightarrow> model_run \<Rightarrow> jsnum \<times> jsnum" where
  "model_estimate input run =
     (case try_model input run of
        Some (p, u) \<Rightarrow> (p, u)
      | None \<Rightarrow> (currentAqi input, Fin 25))"

text \<open>
  One iteration: the state is \<open>(predictions, modelPredictions, modelUncertainties)\<close>, an
  array and two objects keyed by the model name.
\<close>

definition predict_step ::
  "PredictionInput \<Rightarrow> jsnum list \<times> (string \<times> jsnum) list \<times> (string \<times> jsnum) list \<Rightarrow>
   string \<times> model_run \<Rightarrow> jsnum list \<times> (string \<times> jsnum) list \<times> (string \<times> jsnum) list" where
  "predict_step input st m =
     (let (predictions, modelPredictions, modelUncertainties) = st;
          (name, run) = m;
          (p, u) = model_estimate input run
      in (predictions @ [p], AList.update name p modelPredictions,
          AList.update name u modelUncertainties))"

datatype 'a outcome = Returns 'a | Throws

text \<open>
  \<open>EnsemblePredictionEngine.predict\<close>. \<open>ready\<close> says that the engine is initialised or
  that \<open>initialize()\<close> completes; otherwise \<open>initialize\<close> rethrows and so does \<open>predict\<close>.
  \<open>models\<close> lists \<open>this.models\<close> in iteration order with what each model does.
\<close>

definition predict ::
  "bool \<Rightarrow> PredictionInput \<Rightarrow> (string \<times> model_run) list \<Rightarrow> PredictionResult outcome" where
  "predict ready input models =
     (if \<not> ready then Throws
      else
        let (predictions, modelPredictions, modelUncertainties) =
              foldl (predict_step input) ([], [], []) models;
            ensembleResult =
              computeEnsemblePrediction modelPredictions modelUncertainties predictions
        in Returns
             \<lparr> r_predictedAqi = prediction ensembleResult,
               r_confidence = confidence ensembleResult,
               r_uncertainty = uncertainty ensembleResult,
               r_modelPredictions =
                 AList.update ''ensemble'' (prediction ensembleResult) modelPredictions,
               r_confidenceInterval = confidenceInterval ensembleResult \<rparr>)"





section \<open>Anomaly detection\<close>







text \<open>The weighted mean of \<open>(prediction, uncertainty)\<close> pairs, as the specification
  words it: each weight is \<open>1 / (1 + uncertainty / 50)\<close>.\<close>

definition spec_weighted_mean :: "(real \<times> real) list \<Rightarrow> real" where
  "spec_weighted_mean pus =
     sum_list (map (\<lambda>(p, u). p * (1 / (1 + u / 50))) pus)
     / sum_list (map (\<lambda>(p, u). 1 / (1 + u / 50)) pus)"

section \<open>Untyped payloads\<close>

text \<open>
  Values of type \<open>any\<close> (update payloads and the data the server returns) are JSON-like
  values. An object is the list of its own properties in creation order and is read
  through \<open>map_of\<close>; arrays, functions and objects with their own \<open>valueOf\<close> or
  \<open>toString\<close> are outside the modelled values.
\<close>

datatype jsval =
    JUndefined
  | JNull
  | JBool bool
  | JNum jsnum
  | JStr string
  | JObj "(string \<times> jsval) list"

fun truthy :: "jsval \<Rightarrow> bool" where
  "truthy JUndefined = False"
| "truthy JNull = False"
| "truthy (JBool b) = b"
| "truthy (JNum n) = num_truthy n"
| "truthy (JStr s) = (s \<noteq> [])"
| "truthy (JObj fs) = True"

text \<open>Decimal notation of an index, for the property names of a spread string.\<close>

fun dec :: "nat \<Rightarrow> string" where
  "dec n = (if n < 10 then [''0123456789'' ! n]
            else dec (n div 10) @ [''0123456789'' ! (n mod 10)])"

text \<open>
  The own enumerable properties that a spread \<open>{...v}\<close> copies: those of an object, the
  characters of a string under their indices, none for any other value.
\<close>

fun own_props :: "jsval \<Rightarrow> (string \<times> jsval) list" where
  "own_props (JObj fs) = fs"
| "own_props (JStr s) = map (\<lambda>(i, c). (dec i, JStr [c])) (enumerate 0 s)"
| "own_props _ = []"

text \<open>\<open>{...remote, ...local}\<close>: the properties are set one after the other, a later one
  replacing the value of an earlier one of the same name.\<close>

definition spread_into :: "(string \<times> jsval) list \<Rightarrow> jsval \<Rightarrow> (string \<times> jsval) list" where
  "spread_into obj v = fold (\<lambda>(k, x). AList.update k x) (own_props v) obj"

definition spread2 :: "jsval \<Rightarrow> jsval \<Rightarrow> jsval" where
  "spread2 remote local = JObj (spread_into (spread_into [] remote) local)"

text \<open>
  \<open>v.version\<close>: reading a property of \<open>undefined\<close> or \<open>null\<close> throws a TypeError
  (\<open>None\<close>); a primitive has no such property.
\<close>

fun version_prop :: "jsval \<Rightarrow> jsval option" where
  "version_prop JUndefined = None"
| "version_prop JNull = None"
| "version_prop (JObj fs) =
     Some (case map_of fs ''version'' of None \<Rightarrow> JUndefined | Some v \<Rightarrow> v)"
| "version_prop _ = Some JUndefined"

text \<open>
  \<open>ToNumber\<close>, which the comparison \<open>n > v\<close> applies to \<open>v\<close> when \<open>n\<close> is a number. The
  conversion of a string (ECMAScript's StringToNumber) is the parameter \<open>s2n\<close>; a plain
  object converts through \<open>"[object Object]"\<close> to \<open>NaN\<close>.
\<close>

fun toNumber :: "(string \<Rightarrow> jsnum) \<Rightarrow> jsval \<Rightarrow> jsnum" where
  "toNumber s2n JUndefined = NaN"
| "toNumber s2n JNull = Fin 0"
| "toNumber s2n (JBool b) = (if b then Fin 1 else Fin 0)"
| "toNumber s2n (JNum n) = n"
| "toNumber s2n (JStr s) = s2n s"
| "toNumber s2n (JObj fs) = NaN"

section \<open>The optimistic update manager\<close>

datatype update_type = Create | Update | Delete

datatype strategy_name = LastWriterWins | Merge | Manual | VersionBased

record ConflictResolutionStrategy =
  strategy :: strategy_name
  version :: "jsnum option"
  mergeFunction :: "(jsval \<Rightarrow> jsval \<Rightarrow> jsval) option"

record OptimisticUpdate =
  u_id :: string
  u_type :: update_type
  u_collection :: string
  u_data :: jsval
  u_previousData :: "jsval option"
  u_timestamp :: nat
  u_userId :: string
  u_conflictResolution :: "ConflictResolutionStrategy option"

datatype resolution_status = StatusPending | StatusResolved | StatusManual

record Conflict =
  c_id :: string
  c_localUpdate :: OptimisticUpdate
  c_remoteData :: jsval
  c_resolution :: resolution_status
  c_timestamp :: nat

text \<open>
  What leaves the manager: one \<open>UpdatesNotified\<close> for every run of \<open>notifySubscribers\<close>
  and one \<open>ConflictsNotified\<close> for every run of \<open>notifyConflictSubscribers\<close>, each with the
  array handed to the registered callbacks, and one \<open>AppliedResolved\<close> for every call of
  \<open>applyResolvedData\<close>, with the collection and the resolved data it logs.
\<close>

datatype event =
    UpdatesNotified "OptimisticUpdate list"
  | ConflictsNotified "Conflict list"
  | AppliedResolved string jsval

text \<open>The two \<open>Map\<close>s keep insertion order; \<open>events\<close> is the trace, oldest first.\<close>

record Manager =
  updates :: "(string \<times> OptimisticUpdate) list"
  conflicts :: "(string \<times> Conflict) list"
  events :: "event list"

definition newManager :: Manager where
  "newManager = \<lparr> updates = [], conflicts = [], events = [] \<rparr>"

definition getPendingUpdates :: "Manager \<Rightarrow> OptimisticUpdate list" where
  "getPendingUpdates m = map snd (updates m)"

definition getActiveConflicts :: "Manager \<Rightarrow> Conflict list" where
  "getActiveConflicts m =
     filter (\<lambda>c. c_resolution c = StatusPending \<or> c_resolution c = StatusManual)
       (map snd (conflicts m))"

definition notifySubscribers :: "Manager \<Rightarrow> Manager" where
  "notifySubscribers m = m\<lparr>events := events m @ [UpdatesNotified (getPendingUpdates m)]\<rparr>"

definition notifyConflictSubscribers :: "Manager \<Rightarrow> Manager" where
  "notifyConflictSubscribers m =
     m\<lparr>events := events m @ [ConflictsNotified (getActiveConflicts m)]\<rparr>"

text \<open>
  \<open>applyUpdate\<close>. The identifier built from \<open>Date.now()\<close> and \<open>Math.random()\<close> and the
  second clock reading are the arguments \<open>updateId\<close> and \<open>now\<close>; the \<open>id\<close> and
  \<open>timestamp\<close> of the argument are overwritten, as the object spread does.
\<close>

definition applyUpdate ::
  "string \<Rightarrow> nat \<Rightarrow> OptimisticUpdate \<Rightarrow> Manager \<Rightarrow> string \<times> Manager" where
  "applyUpdate updateId now update m =
     (let fullUpdate = update\<lparr>u_id := updateId, u_timestamp := now\<rparr>
      in (updateId,
          notifySubscribers (m\<lparr>updates := AList.update updateId fullUpdate (updates m)\<rparr>)))"

definition applyResolvedData :: "OptimisticUpdate \<Rightarrow> jsval \<Rightarrow> Manager \<Rightarrow> Manager" where
  "applyResolvedData update resolvedData m =
     m\<lparr>events := events m @ [AppliedResolved (u_collection update) resolvedData]\<rparr>"

text \<open>How a call ends: normally, or with the TypeError of a property read.\<close>

datatype completion = Normal | TypeError

text \<open>The end of \<open>resolveConflict\<close>, from ``Apply resolved data'' on.\<close>

definition finishResolution :: "string \<Rightarrow> Conflict \<Rightarrow> jsval \<Rightarrow> Manager \<Rightarrow> Manager" where
  "finishResolution conflictId conflict resolvedData m =
     (let m1 = m\<lparr>conflicts :=
                   AList.update conflictId (conflict\<lparr>c_resolution := StatusResolved\<rparr>)
                     (conflicts m)\<rparr>;
          m2 = applyResolvedData (c_localUpdate conflict) resolvedData m1;
          m3 = m2\<lparr>conflicts := AList.delete conflictId (conflicts m2)\<rparr>;
          m4 = m3\<lparr>updates := AList.delete (u_id (c_localUpdate conflict)) (updates m3)\<rparr>
      in notifySubscribers (notifyConflictSubscribers m4))"

text \<open>
  \<open>resolveConflict\<close>: the guard, the \<open>switch\<close> on the strategy (its \<open>default\<close> case is
  excluded by the type of \<open>strategy\<close>) and the common end. Reading
  \<open>remoteData.version\<close> is the one step that can throw, before any change of state.
\<close>

definition resolveConflict ::
  "(string \<Rightarrow> jsnum) \<Rightarrow> string \<Rightarrow> ConflictResolutionStrategy \<Rightarrow> Manager \<Rightarrow>
   completion \<times> Manager" where
  "resolveConflict s2n conflictId resolution m =
     (case map_of (conflicts m) conflictId of
        None \<Rightarrow> (Normal, m)
      | Some conflict \<Rightarrow>
          (case strategy resolution of
             LastWriterWins \<Rightarrow>
               (Normal, finishResolution conflictId conflict (u_data (c_localUpdate conflict)) m)
           | Merge \<Rightarrow>
               (case mergeFunction resolution of
                  Some f \<Rightarrow>
                    (Normal,
                     finishResolution conflictId conflict
                       (f (u_data (c_localUpdate conflict)) (c_remoteData conflict)) m)
                | None \<Rightarrow>
                    (Normal,
                     finishResolution conflictId conflict
                       (spread2 (c_remoteData conflict) (u_data (c_localUpdate conflict))) m))
           | VersionBased \<Rightarrow>
               (let localVersion =
                      (case version resolution of
                         None \<Rightarrow> Fin 0
                       | Some v \<Rightarrow> if num_truthy v then v else Fin 0)
                in case version_prop (c_remoteData conflict) of
                     None \<Rightarrow> (TypeError, m)
                   | Some rv \<Rightarrow>
                       (let remoteVersion = (if truthy rv then rv else JNum (Fin 0))
                        in (Normal,
                            finishResolution conflictId conflict
                              (if jgt localVersion (toNumber s2n remoteVersion)
                               then u_data (c_localUpdate conflict)
                               else c_remoteData conflict) m)))
           | Manual \<Rightarrow>
               (Normal,
                notifyConflictSubscribers
                  (m\<lparr>conflicts :=
                       AList.update conflictId (conflict\<lparr>c_resolution := StatusManual\<rparr>)
                         (conflicts m)\<rparr>))))"

text \<open>
  \<open>handleConflict\<close>; \<open>conflictId\<close> and \<open>now\<close> stand for the generated identifier and the
  clock reading.
\<close>

definition handleConflict ::
  "(string \<Rightarrow> jsnum) \<Rightarrow> string \<Rightarrow> nat \<Rightarrow> OptimisticUpdate \<Rightarrow> jsval \<Rightarrow> Manager \<Rightarrow>
   completion \<times> Manager" where
  "handleConflict s2n conflictId now update serverData m =
     (let conflict = \<lparr> c_id = conflictId, c_localUpdate = update, c_remoteData = serverData,
                       c_resolution = StatusPending, c_timestamp = now \<rparr>;
          m1 = notifyConflictSubscribers
                 (m\<lparr>conflicts := AList.update conflictId conflict (conflicts m)\<rparr>)
      in case u_conflictResolution update of
           None \<Rightarrow> (Normal, m1)
         | Some resolution \<Rightarrow> resolveConflict s2n conflictId resolution m1)"

text \<open>
  \<open>resolveUpdate\<close>; an absent \<open>serverData\<close> is \<open>JUndefined\<close>. \<open>conflictId\<close> and \<open>now\<close> are
  what \<open>handleConflict\<close> would generate and are used only if it runs.
\<close>

definition resolveUpdate ::
  "(string \<Rightarrow> jsnum) \<Rightarrow> string \<Rightarrow> nat \<Rightarrow> string \<Rightarrow> bool \<Rightarrow> jsval \<Rightarrow> Manager \<Rightarrow>
   completion \<times> Manager" where
  "resolveUpdate s2n conflictId now updateId success serverData m =
     (case map_of (updates m) updateId of
        None \<Rightarrow> (Normal, m)
      | Some update \<Rightarrow>
          if success
          then (Normal, notifySubscribers (m\<lparr>updates := AList.delete updateId (updates m)\<rparr>))
          else if truthy serverData
          then (case handleConflict s2n conflictId now update serverData m of
                  (Normal, m') \<Rightarrow> (Normal, notifySubscribers m')
                | (TypeError, m') \<Rightarrow> (TypeError, m'))
          else (Normal, notifySubscribers (m\<lparr>updates := AList.delete updateId (updates m)\<rparr>)))"

text \<open>The states a manager passes through under calls of its three operations:
  every call leaves the manager in the state it reached, also one that threw.\<close>

inductive reachable :: "(string \<Rightarrow> jsnum) \<Rightarrow> Manager \<Rightarrow> bool" for s2n where
  reach_new: "reachable s2n newManager"
| reach_applyUpdate:
    "reachable s2n m \<Longrightarrow> reachable s2n (snd (applyUpdate updateId now update m))"
| reach_resolveUpdate:
    "reachable s2n m \<Longrightarrow>
     reachable s2n (snd (resolveUpdate s2n conflictId now updateId success serverData m))"
| reach_resolveConflict:
    "reachable s2n m \<Longrightarrow> reachable s2n (snd (resolveConflict s2n conflictId resolution m))"


text \<open>
  What holds of the two maps in every state a manager reaches: an update is stored
  under its own identifier, and a conflict is stored under its own identifier, holds
  truthy server data and is not marked resolved.
\<close>

definition manager_inv :: "Manager \<Rightarrow> bool" where
  "manager_inv m =
     ((\<forall>k u. map_of (updates m) k = Some u \<longrightarrow> u_id u = k) \<and>
      (\<forall>k c. map_of (conflicts m) k = Some c \<longrightarrow>
         c_id c = k \<and> truthy (c_remoteData c) \<and> c_resolution c \<noteq> StatusResolved))"

text \<open>
  A string conversion for runs in which no string is compared with a number: it reads
  every string as \<open>NaN\<close>, as StringToNumber does for a string that is no numeral.
\<close>

definition not_numeric :: "string \<Rightarrow> jsnum" where
  "not_numeric s = NaN"

section \<open>A sample run\<close>

text \<open>
  One update without a strategy of its own, applied to a new manager under the
  identifier \<open>update_1_a\<close>, and the manager after the server refused it with the data it
  holds, which makes the conflict \<open>conflict_2_b\<close>.
\<close>

definition sample_update :: OptimisticUpdate where
  "sample_update =
     \<lparr> u_id = [], u_type = Update, u_collection = ''annotations'',
       u_data = JObj [(''content'', JStr ''mine''), (''color'', JStr ''red'')],
       u_previousData = None, u_timestamp = 0, u_userId = ''current-user'',
       u_conflictResolution = None \<rparr>"

definition sample_remote :: jsval where
  "sample_remote = JObj [(''content'', JStr ''theirs''), (''version'', JNum (Fin 1))]"

definition sample_pending :: Manager where
  "sample_pending = snd (applyUpdate ''update_1_a'' 1 sample_update newManager)"

definition sample_conflicted :: Manager where
  "sample_conflicted =
     snd (resolveUpdate not_numeric ''conflict_2_b'' 2 ''update_1_a'' False sample_remote
            sample_pending)"

definition sample_conflict :: Conflict where
  "sample_conflict =
     \<lparr> c_id = ''conflict_2_b'',
       c_localUpdate = sample_update\<lparr>u_id := ''update_1_a'', u_timestamp := 1\<rparr>,
       c_remoteData = sample_remote, c_resolution = StatusPending, c_timestamp = 2 \<rparr>"


text \<open>The same run for an update that names the strategy \<open>merge\<close>.\<close>

definition sample_merging :: Manager where
  "sample_merging =
     snd (resolveUpdate not_numeric ''conflict_2_b'' 2 ''update_1_a'' False sample_remote
            (snd (applyUpdate ''update_1_a'' 1
                    (sample_update\<lparr>u_conflictResolution :=
                       Some \<lparr> strategy = Merge, version = None, mergeFunction = None \<rparr>\<rparr>)
                    newManager)))"

section \<open>Arithmetic on finite numbers\<close>

lemma jsum_foldl_Fin: "foldl jadd (Fin a) (map Fin xs) = Fin (a + sum_list xs)"
  by (induction xs arbitrary: a) (simp_all add: algebra_simps)

lemma jsum_Fin: "jsum (map Fin xs) = Fin (sum_list xs)"
  by (simp add: jsum_def jsum_foldl_Fin)

lemma jmax_foldl_Fin: "foldl jmax2 (Fin a) (map Fin xs) = Fin (foldl max a xs)"
  by (induction xs arbitrary: a) simp_all

lemma jmax_list_Fin:
  "xs \<noteq> [] \<Longrightarrow> jmax_list (map Fin xs) = Fin (foldl max (hd xs) (tl xs))"
  by (cases xs) (simp_all add: jmax_list_def jmax_foldl_Fin)

section \<open>The combiner\<close>

lemma lookup_or_pos:
  assumes "\<And>x. map_of mu n = Some x \<Longrightarrow> \<exists>u. x = Fin u \<and> 0 \<le> u"
  shows "\<exists>u. lookup_or mu n (Fin 25) = Fin u \<and> 0 < u"
proof (cases "map_of mu n")
  case None
  then show ?thesis by (simp add: lookup_or_def)
next
  case (Some x)
  with assms obtain u where "x = Fin u" "0 \<le> u" by blast
  with Some show ?thesis by (cases "u = 0") (auto simp: lookup_or_def num_truthy_def)
qed

lemma weigh_Fin:
  assumes "lookup_or mu n (Fin 25) = Fin u" "0 < u"
  shows "weigh mu (Fin a, Fin b) (n, Fin p) =
         (Fin (a + p * (1 / (1 + u / 50))), Fin (b + 1 / (1 + u / 50)))"
proof -
  have "1 + u / 50 \<noteq> 0" using assms(2) by (simp add: add_pos_nonneg pos_add_strict)
  then show ?thesis using assms(1) by (simp add: weigh_def Let_def)
qed

lemma weigh_fold:
  assumes mu: "\<And>n x. map_of mu n = Some x \<Longrightarrow> \<exists>u. x = Fin u \<and> 0 \<le> u"
  shows "\<exists>s t. foldl (weigh mu) (Fin a, Fin b) (map (\<lambda>(n, p). (n, Fin p)) xs) = (Fin s, Fin t)
            \<and> b \<le> t \<and> (xs \<noteq> [] \<longrightarrow> b < t)
            \<and> ((\<forall>(n, p) \<in> set xs. 0 \<le> p) \<longrightarrow> a \<le> s)"
proof (induction xs arbitrary: a b)
  case Nil
  show ?case by simp
next
  case (Cons x xs)
  obtain n p where x: "x = (n, p)" by (cases x)
  from lookup_or_pos [of mu n] mu obtain u where u: "lookup_or mu n (Fin 25) = Fin u" "0 < u"
    by blast
  define w where "w = 1 / (1 + u / 50)"
  have wpos: "0 < w" using u(2) by (simp add: w_def add_pos_pos)
  from Cons.IH [of "a + p * w" "b + w"] obtain s t where
    st: "foldl (weigh mu) (Fin (a + p * w), Fin (b + w)) (map (\<lambda>(n, p). (n, Fin p)) xs) = (Fin s, Fin t)"
    and bt: "b + w \<le> t"
    and as: "(\<forall>(n, p) \<in> set xs. 0 \<le> p) \<longrightarrow> a + p * w \<le> s"
    by blast
  have step: "foldl (weigh mu) (Fin a, Fin b) (map (\<lambda>(n, p). (n, Fin p)) (x # xs)) = (Fin s, Fin t)"
    using st weigh_Fin [OF u, of a b p] by (simp add: x w_def)
  have "b < t" using bt wpos by linarith
  moreover have "(\<forall>(n, p) \<in> set (x # xs). 0 \<le> p) \<longrightarrow> a \<le> s"
  proof
    assume h: "\<forall>(n, p) \<in> set (x # xs). 0 \<le> p"
    then have "0 \<le> p" by (simp add: x)
    then have "0 \<le> p * w" using wpos by simp
    moreover from h as have "a + p * w \<le> s" by simp
    ultimately show "a \<le> s" by linarith
  qed
  ultimately show ?case using step by auto
qed

text \<open>
  Claim C2, as stated, fails: on empty arguments the combiner throws nothing and
  returns a result whose fields are all \<open>NaN\<close>.
\<close>

theorem combiner_empty_counterexample:
  "computeEnsemblePrediction [] [] [] =
     \<lparr> prediction = NaN, confidence = NaN, uncertainty = NaN, confidenceInterval = (NaN, NaN) \<rparr>"
  by (simp add: computeEnsemblePrediction_def jsum_def jmax_list_def jsub_def)


lemma cep_finite:
  assumes mu: "\<And>n x. map_of mu n = Some x \<Longrightarrow> \<exists>u. x = Fin u \<and> 0 \<le> u"
    and xs: "xs \<noteq> []" and ps: "ps \<noteq> []"
  shows "\<exists>m c u. computeEnsemblePrediction (map (\<lambda>(n, p). (n, Fin p)) xs) mu (map Fin ps) =
           \<lparr> prediction = Fin m, confidence = Fin c, uncertainty = Fin u,
             confidenceInterval = (Fin (max 0 (m - 196 / 100 * u)), Fin (m + 196 / 100 * u)) \<rparr>
         \<and> 0 \<le> u \<and> 1 / 10 \<le> c \<and> c \<le> 95 / 100
         \<and> ((\<forall>(n, p) \<in> set xs. 0 \<le> p) \<longrightarrow> 0 \<le> m)"
proof -
  from weigh_fold [of mu 0 0 xs] mu xs obtain s t where
    st: "foldl (weigh mu) (Fin 0, Fin 0) (map (\<lambda>(n, p). (n, Fin p)) xs) = (Fin s, Fin t)"
    and t: "0 < t" and s: "(\<forall>(n, p) \<in> set xs. 0 \<le> p) \<longrightarrow> 0 \<le> s"
    by blast
  define m where "m = s / t"
  have mdiv: "jdiv (Fin s) (Fin t) = Fin m" using t by (simp add: m_def)
  define S where "S = sum_list (map (\<lambda>p. (p - m) * (p - m)) ps)"
  have S0: "0 \<le> S" unfolding S_def by (rule sum_list_nonneg) auto
  have var: "jsum (map (\<lambda>pred. jpow2 (jsub pred (Fin m))) (map Fin ps)) = Fin S"
  proof -
    have "map (\<lambda>pred. jpow2 (jsub pred (Fin m))) (map Fin ps) =
          map Fin (map (\<lambda>p. (p - m) * (p - m)) ps)"
      by (simp add: jsub_def)
    then show ?thesis by (simp only: jsum_Fin S_def)
  qed
  define u where "u = sqrt (S / real (length ps))"
  have len: "real (length ps) \<noteq> 0" using ps by simp
  have u0: "0 \<le> u" using S0 by (simp add: u_def)
  have q0: "0 \<le> S / real (length ps)" using S0 by simp
  have unc: "jsqrt (jdiv (Fin S) (Fin (real (length ps)))) = Fin u"
    using len q0 by (simp add: u_def not_less)
  obtain d where dev: "jmax_list (map (\<lambda>p. jabs (jsub p (Fin m))) (map Fin ps)) = Fin d"
  proof -
    have "map (\<lambda>p. jabs (jsub p (Fin m))) (map Fin ps) = map Fin (map (\<lambda>p. \<bar>p - m\<bar>) ps)"
      by (simp add: jsub_def)
    moreover have "map (\<lambda>p. \<bar>p - m\<bar>) ps \<noteq> []" using ps by simp
    ultimately show ?thesis using that jmax_list_Fin by metis
  qed
  define c where "c = max (1 / 10) (min (95 / 100) (max 0 (1 - d / 100) * (1 - u / 100)))"
  have c: "1 / 10 \<le> c" "c \<le> 95 / 100" by (simp_all add: c_def)
  have "computeEnsemblePrediction (map (\<lambda>(n, p). (n, Fin p)) xs) mu (map Fin ps) =
           \<lparr> prediction = Fin m, confidence = Fin c, uncertainty = Fin u,
             confidenceInterval = (Fin (max 0 (m - 196 / 100 * u)), Fin (m + 196 / 100 * u)) \<rparr>"
    apply (simp only: computeEnsemblePrediction_def Let_def st prod.case mdiv var length_map unc dev)
    apply (simp add: jsub_def c_def)
    done
  moreover have "(\<forall>(n, p) \<in> set xs. 0 \<le> p) \<longrightarrow> 0 \<le> m"
    using s t by (simp add: m_def)
  ultimately show ?thesis using u0 c by blast
qed


lemma map_of_unc:
  assumes "\<forall>(n, p, u) \<in> set ms. 0 \<le> u"
    and "map_of (map (\<lambda>(n, p, u). (n, Fin u)) ms) k = Some x"
  shows "\<exists>u. x = Fin u \<and> 0 \<le> (u::real)"
proof -
  from assms(2) have "(k, x) \<in> set (map (\<lambda>(n, p, u). (n, Fin u)) ms)" by (rule map_of_SomeD)
  then obtain n p u where "(n, p, u) \<in> set ms" "x = Fin u" by auto
  with assms(1) show ?thesis by auto
qed

text \<open>
  Claim C3, as stated, fails: a single model predicting \<open>-5\<close> yields the ensemble value
  \<open>-5\<close> with uncertainty 0, and the interval \<open>[0, -5]\<close>, whose floored lower bound lies
  above the predicted value.
\<close>

theorem ensemble_interval_counterexample:
  "computeEnsemblePrediction [(''lstm'', Fin (- 5))] [(''lstm'', Fin 10)] [Fin (- 5)] =
     \<lparr> prediction = Fin (- 5), confidence = Fin (95 / 100), uncertainty = Fin 0,
       confidenceInterval = (Fin 0, Fin (- 5)) \<rparr>
   \<and> jgt (Fin 0) (Fin (- 5))"
  by (simp add: computeEnsemblePrediction_def weigh_def lookup_or_def num_truthy_def
      jsum_def jmax_list_def jsub_def Let_def)

text \<open>
  Claim C3, amended: for every non-empty list of finite model predictions with
  non-negative uncertainties, the combiner returns finite values with
  \<open>predicted \<le> hi\<close>, confidence in \<open>[0.1, 0.95]\<close> and the interval
  \<open>[max 0 (mean - 1.96 u), mean + 1.96 u]\<close>; \<open>lo \<le> predicted\<close> holds exactly when
  the predicted value is not negative, which is the case when no prediction is negative.
\<close>

theorem ensemble_interval_bounds:
  assumes "ms \<noteq> []" and "\<forall>(n, p, u) \<in> set ms. 0 \<le> u"
  shows "\<exists>m c u.
           computeEnsemblePrediction
             (map (\<lambda>(n, p, u). (n, Fin p)) ms)
             (map (\<lambda>(n, p, u). (n, Fin u)) ms)
             (map (\<lambda>(n, p, u). Fin p) ms) =
           \<lparr> prediction = Fin m, confidence = Fin c, uncertainty = Fin u,
             confidenceInterval = (Fin (max 0 (m - 196 / 100 * u)), Fin (m + 196 / 100 * u)) \<rparr>
         \<and> 0 \<le> u \<and> m \<le> m + 196 / 100 * u \<and> 1 / 10 \<le> c \<and> c \<le> 95 / 100
         \<and> (max 0 (m - 196 / 100 * u) \<le> m \<longleftrightarrow> 0 \<le> m)
         \<and> ((\<forall>(n, p, u) \<in> set ms. 0 \<le> p) \<longrightarrow> 0 \<le> m)"
proof -
  let ?xs = "map (\<lambda>(n, p, u). (n, p)) ms"
  let ?ps = "map (\<lambda>(n, p, u). p) ms"
  have a1: "map (\<lambda>(n, p, u). (n, Fin p)) ms = map (\<lambda>(n, p). (n, Fin p)) ?xs" by auto
  have a2: "map (\<lambda>(n, p, u). Fin p) ms = map Fin ?ps" by auto
  have ne: "?xs \<noteq> []" "?ps \<noteq> []" using assms(1) by simp_all
  have mu: "\<And>k x. map_of (map (\<lambda>(n, p, u). (n, Fin u)) ms) k = Some x
              \<Longrightarrow> \<exists>u. x = Fin u \<and> 0 \<le> u"
    using map_of_unc [OF assms(2)] by blast
  have "\<exists>m c u. computeEnsemblePrediction (map (\<lambda>(n, p). (n, Fin p)) ?xs)
          (map (\<lambda>(n, p, u). (n, Fin u)) ms) (map Fin ?ps) =
        \<lparr> prediction = Fin m, confidence = Fin c, uncertainty = Fin u,
          confidenceInterval = (Fin (max 0 (m - 196 / 100 * u)), Fin (m + 196 / 100 * u)) \<rparr>
      \<and> 0 \<le> u \<and> 1 / 10 \<le> c \<and> c \<le> 95 / 100
      \<and> ((\<forall>(n, p) \<in> set ?xs. 0 \<le> p) \<longrightarrow> 0 \<le> m)"
    by (rule cep_finite [OF _ ne]) (erule mu)
  then obtain m c u where
    r: "computeEnsemblePrediction (map (\<lambda>(n, p). (n, Fin p)) ?xs)
          (map (\<lambda>(n, p, u). (n, Fin u)) ms) (map Fin ?ps) =
        \<lparr> prediction = Fin m, confidence = Fin c, uncertainty = Fin u,
          confidenceInterval = (Fin (max 0 (m - 196 / 100 * u)), Fin (m + 196 / 100 * u)) \<rparr>"
    and b: "0 \<le> u" "1 / 10 \<le> c" "c \<le> 95 / 100"
    and pos: "(\<forall>(n, p) \<in> set ?xs. 0 \<le> p) \<longrightarrow> 0 \<le> m"
    by blast
  have p1: "m \<le> m + 196 / 100 * u" using b(1) by simp
  have p2: "max 0 (m - 196 / 100 * u) \<le> m \<longleftrightarrow> 0 \<le> m" using b(1) by auto
  have p3: "(\<forall>(n, p, u) \<in> set ms. 0 \<le> p) \<longrightarrow> 0 \<le> m" using pos by auto
  show ?thesis
    unfolding a1 a2 using r b p1 p2 p3 by blast
qed

text \<open>The bounds at the three models of the specification's example.\<close>

theorem ensemble_interval_bounds_witness:
  "\<exists>m c u.
     computeEnsemblePrediction
       [(''lstm'', Fin 100), (''transformer'', Fin 110), (''cnn'', Fin 90)]
       [(''lstm'', Fin 10), (''transformer'', Fin 20), (''cnn'', Fin 5)]
       [Fin 100, Fin 110, Fin 90] =
     \<lparr> prediction = Fin m, confidence = Fin c, uncertainty = Fin u,
       confidenceInterval = (Fin (max 0 (m - 196 / 100 * u)), Fin (m + 196 / 100 * u)) \<rparr>
     \<and> 0 \<le> u \<and> max 0 (m - 196 / 100 * u) \<le> m \<and> m \<le> m + 196 / 100 * u
     \<and> 1 / 10 \<le> c \<and> c \<le> 95 / 100"
  using ensemble_interval_bounds
    [of "[(''lstm'', 100, 10), (''transformer'', 110, 20), (''cnn'', 90, 5)]"]
  by simp blast

text \<open>
  Claim C2, amended: the combiner has no failure; an initialised engine returns a result
  for every list of models, and with no model at all the result consists of \<open>NaN\<close>.
\<close>

theorem predict_no_models:
  "predict True input [] =
     Returns \<lparr> r_predictedAqi = NaN, r_confidence = NaN, r_uncertainty = NaN,
               r_modelPredictions = [(''ensemble'', NaN)],
               r_confidenceInterval = (NaN, NaN) \<rparr>
   \<and> predict True input models \<noteq> Throws"
proof
  show "predict True input [] =
     Returns \<lparr> r_predictedAqi = NaN, r_confidence = NaN, r_uncertainty = NaN,
               r_modelPredictions = [(''ensemble'', NaN)],
               r_confidenceInterval = (NaN, NaN) \<rparr>"
    by (simp add: predict_def computeEnsemblePrediction_def jsum_def jmax_list_def
        jsub_def Let_def)
  show "predict True input models \<noteq> Throws"
    by (simp add: predict_def Let_def split: prod.splits)
qed

lemma sqrt_100: "sqrt 100 = 10"
  by (rule real_sqrt_unique) simp_all

lemma prediction_of_ensemble:
  "prediction (computeEnsemblePrediction mp mu ps) =
     jdiv (fst (foldl (weigh mu) (Fin 0, Fin 0) mp)) (snd (foldl (weigh mu) (Fin 0, Fin 0) mp))"
  by (simp add: computeEnsemblePrediction_def Let_def split: prod.splits)

lemma mc_alternating:
  "monteCarloPrediction
     [Sampled (Fin 90), Sampled (Fin 110), Sampled (Fin 90), Sampled (Fin 110),
      Sampled (Fin 90), Sampled (Fin 110), Sampled (Fin 90), Sampled (Fin 110),
      Sampled (Fin 90), Sampled (Fin 110)]
   = (Fin 100, Fin 10)"
  by (simp add: monteCarloPrediction_def jsum_def jsub_def Let_def sqrt_100)

text \<open>
  Claim C4 at an input where the code departs from it: the ONNX model \<open>cnn\<close> predicts
  exactly the current AQI 200, so its uncertainty is 0; the loop replaces that 0 by the
  default 25 and weighs \<open>cnn\<close> with \<open>2/3\<close>, less than the \<open>5/6\<close> of the two models of
  uncertainty 10. The engine returns \<open>900/7\<close>, the weighted mean of the claim is \<open>275/2\<close>.
\<close>

theorem zero_uncertainty_gets_default_weight:
  "\<exists>r. predict True (input\<lparr>currentAqi := Fin 200\<rparr>)
         [(''lstm'', LayersRun
              [Sampled (Fin 90), Sampled (Fin 110), Sampled (Fin 90), Sampled (Fin 110),
               Sampled (Fin 90), Sampled (Fin 110), Sampled (Fin 90), Sampled (Fin 110),
               Sampled (Fin 90), Sampled (Fin 110)]),
          (''transformer'', LayersRun
              [Sampled (Fin 90), Sampled (Fin 110), Sampled (Fin 90), Sampled (Fin 110),
               Sampled (Fin 90), Sampled (Fin 110), Sampled (Fin 90), Sampled (Fin 110),
               Sampled (Fin 90), Sampled (Fin 110)]),
          (''cnn'', OnnxRun (Fin 200))] = Returns r
     \<and> r_predictedAqi r = Fin (900 / 7)
     \<and> r_modelPredictions r =
         [(''lstm'', Fin 100), (''transformer'', Fin 100), (''cnn'', Fin 200),
          (''ensemble'', Fin (900 / 7))]
     \<and> spec_weighted_mean [(100, 10), (100, 10), (200, 0)] = 275 / 2"
  by (simp add: predict_def Let_def predict_step_def model_estimate_def mc_alternating prediction_of_ensemble
      weigh_def lookup_or_def num_truthy_def jsub_def spec_weighted_mean_def)

text \<open>Where every uncertainty is positive and the names differ, the engine's value is
  the weighted mean of the specification.\<close>

lemma weigh_fold_exact:
  assumes "\<forall>(n, p, u) \<in> set xs. lookup_or mu n (Fin 25) = Fin u \<and> 0 < u"
  shows "foldl (weigh mu) (Fin a, Fin b) (map (\<lambda>(n, p, u). (n, Fin p)) xs) =
           (Fin (a + sum_list (map (\<lambda>(n, p, u). p * (1 / (1 + u / 50))) xs)),
            Fin (b + sum_list (map (\<lambda>(n, p, u). 1 / (1 + u / 50)) xs)))"
  using assms
proof (induction xs arbitrary: a b)
  case Nil
  show ?case by simp
next
  case (Cons x xs)
  obtain n p u where x: "x = (n, p, u)" by (cases x)
  from Cons.prems have u: "lookup_or mu n (Fin 25) = Fin u" "0 < u" by (simp_all add: x)
  from Cons.prems have rest: "\<forall>(n, p, u) \<in> set xs. lookup_or mu n (Fin 25) = Fin u \<and> 0 < u"
    by simp
  show ?case
    using Cons.IH [OF rest, of "a + p * (1 / (1 + u / 50))" "b + 1 / (1 + u / 50)"]
      weigh_Fin [OF u, of a b p]
    by (simp add: x algebra_simps)
qed

lemma sum_weights_pos:
  assumes "xs \<noteq> []" "\<forall>(n, p, u) \<in> set xs. 0 < (u::real)"
  shows "0 < sum_list (map (\<lambda>(n, p, u). 1 / (1 + u / 50)) xs)"
  using assms
proof (induction xs)
  case Nil
  then show ?case by simp
next
  case (Cons x xs)
  obtain n p u where x: "x = (n, p, u)" by (cases x)
  from Cons.prems have "0 < u" by (simp add: x)
  then have w: "0 < 1 / (1 + u / 50)" by (simp add: add_pos_pos)
  have "0 \<le> sum_list (map (\<lambda>(n, p, u). 1 / (1 + u / 50)) xs)"
  proof (cases "xs = []")
    case True
    then show ?thesis by simp
  next
    case False
    with Cons show ?thesis by (simp add: less_imp_le)
  qed
  with w show ?case by (simp add: x add_pos_nonneg)
qed

lemma ensemble_mean_positive_uncertainties:
  assumes "ms \<noteq> []" "distinct (map fst ms)" "\<forall>(n, p, u) \<in> set ms. 0 < u"
  shows "prediction (computeEnsemblePrediction
           (map (\<lambda>(n, p, u). (n, Fin p)) ms) (map (\<lambda>(n, p, u). (n, Fin u)) ms) ps) =
         Fin (spec_weighted_mean (map (\<lambda>(n, p, u). (p, u)) ms))"
proof -
  let ?mu = "map (\<lambda>(n, p, u). (n, Fin u)) ms"
  have d: "distinct (map fst ?mu)"
    using assms(2) by (simp add: case_prod_beta comp_def)
  have look: "\<forall>(n, p, u) \<in> set ms. lookup_or ?mu n (Fin 25) = Fin u \<and> 0 < u"
  proof (clarify)
    fix n p u assume m: "(n, p, u) \<in> set ms"
    then have "(n, Fin u) \<in> set ?mu" by force
    with d have "map_of ?mu n = Some (Fin u)" by (rule map_of_is_SomeI)
    moreover from m assms(3) have "0 < u" by auto
    ultimately show "lookup_or ?mu n (Fin 25) = Fin u \<and> 0 < u"
      by (simp add: lookup_or_def num_truthy_def)
  qed
  have tw: "sum_list (map (\<lambda>(n, p, u). 1 / (1 + u / 50)) ms) \<noteq> 0"
    using sum_weights_pos [OF assms(1) assms(3)] by simp
  define A where "A = sum_list (map (\<lambda>(n, p, u). p * (1 / (1 + u / 50))) ms)"
  define B where "B = sum_list (map (\<lambda>(n, p, u). 1 / (1 + u / 50)) ms)"
  have e: "sum_list (map (\<lambda>(p, u). p * (1 / (1 + u / 50))) (map (\<lambda>(n, p, u). (p, u)) ms)) = A"
          "sum_list (map (\<lambda>(p, u). 1 / (1 + u / 50)) (map (\<lambda>(n, p, u). (p, u)) ms)) = B"
    unfolding A_def B_def by (induction ms) auto
  have "prediction (computeEnsemblePrediction
           (map (\<lambda>(n, p, u). (n, Fin p)) ms) ?mu ps) = jdiv (Fin A) (Fin B)"
    by (simp add: prediction_of_ensemble weigh_fold_exact [OF look] A_def B_def)
  also have "\<dots> = Fin (A / B)" using tw by (simp add: B_def)
  also have "A / B = spec_weighted_mean (map (\<lambda>(n, p, u). (p, u)) ms)"
    by (simp only: spec_weighted_mean_def e)
  finally show ?thesis .
qed

text \<open>The three models of the specification's example.\<close>

lemma example_mean:
  "prediction (computeEnsemblePrediction
       [(''lstm'', Fin 100), (''transformer'', Fin 110), (''cnn'', Fin 90)]
       [(''lstm'', Fin 10), (''transformer'', Fin 20), (''cnn'', Fin 5)]
       [Fin 100, Fin 110, Fin 90]) = Fin (22520 / 227)
   \<and> (90::real) < 22520 / 227 \<and> (22520::real) / 227 < 100"
  by (simp add: prediction_of_ensemble weigh_def lookup_or_def num_truthy_def)

section \<open>The anomaly scorer\<close>












section \<open>The prediction loop\<close>

lemma update_absent: "k \<notin> fst ` set al \<Longrightarrow> AList.update k v al = al @ [(k, v)]"
  by (induction al) auto





section \<open>The manager\<close>

lemma notify_fields [simp]:
  "updates (notifySubscribers m) = updates m"
  "conflicts (notifySubscribers m) = conflicts m"
  "updates (notifyConflictSubscribers m) = updates m"
  "conflicts (notifyConflictSubscribers m) = conflicts m"
  by (simp_all add: notifySubscribers_def notifyConflictSubscribers_def)

lemma notify_events:
  "events (notifySubscribers m) = events m @ [UpdatesNotified (map snd (updates m))]"
  "events (notifyConflictSubscribers m) =
     events m @ [ConflictsNotified
       (filter (\<lambda>c. c_resolution c = StatusPending \<or> c_resolution c = StatusManual)
          (map snd (conflicts m)))]"
  by (simp_all add: notifySubscribers_def notifyConflictSubscribers_def
      getPendingUpdates_def getActiveConflicts_def)

lemma finish_updates:
  "updates (finishResolution cid c d m) = AList.delete (u_id (c_localUpdate c)) (updates m)"
  by (simp add: finishResolution_def Let_def applyResolvedData_def)

lemma finish_conflicts:
  "conflicts (finishResolution cid c d m) = AList.delete cid (conflicts m)"
  by (simp add: finishResolution_def Let_def applyResolvedData_def delete_update_same)

lemma finish_events:
  "events (finishResolution cid c d m) =
     events m @
     [AppliedResolved (u_collection (c_localUpdate c)) d,
      ConflictsNotified
        (filter (\<lambda>c. c_resolution c = StatusPending \<or> c_resolution c = StatusManual)
           (map snd (AList.delete cid (conflicts m)))),
      UpdatesNotified (map snd (AList.delete (u_id (c_localUpdate c)) (updates m)))]"
  by (simp add: finishResolution_def Let_def applyResolvedData_def notify_events
      delete_update_same)

lemma inv_delete_update:
  "manager_inv m \<Longrightarrow> manager_inv (m\<lparr>updates := AList.delete k (updates m)\<rparr>)"
  by (simp add: manager_inv_def delete_conv')

lemma inv_notify [simp]:
  "manager_inv (notifySubscribers m) = manager_inv m"
  "manager_inv (notifyConflictSubscribers m) = manager_inv m"
  by (simp_all add: manager_inv_def)

lemma inv_finish: "manager_inv m \<Longrightarrow> manager_inv (finishResolution cid c d m)"
  by (simp add: manager_inv_def finish_updates finish_conflicts delete_conv')

lemma inv_new: "manager_inv newManager"
  by (simp add: manager_inv_def newManager_def)

lemma inv_applyUpdate: "manager_inv m \<Longrightarrow> manager_inv (snd (applyUpdate uid now u m))"
  by (simp add: applyUpdate_def Let_def manager_inv_def update_conv')

lemma resolveConflict_state:
  "snd (resolveConflict s2n cid r m) = m
   \<or> (\<exists>c d. map_of (conflicts m) cid = Some c
          \<and> snd (resolveConflict s2n cid r m) = finishResolution cid c d m)
   \<or> (\<exists>c. map_of (conflicts m) cid = Some c
          \<and> snd (resolveConflict s2n cid r m) =
              notifyConflictSubscribers
                (m\<lparr>conflicts :=
                     AList.update cid (c\<lparr>c_resolution := StatusManual\<rparr>) (conflicts m)\<rparr>))"
proof (cases "map_of (conflicts m) cid")
  case None
  then show ?thesis by (simp add: resolveConflict_def)
next
  case (Some c)
  show ?thesis
  proof (cases "strategy r")
    case LastWriterWins
    with Some show ?thesis by (auto simp: resolveConflict_def)
  next
    case Merge
    with Some show ?thesis by (cases "mergeFunction r") (auto simp: resolveConflict_def)
  next
    case Manual
    with Some show ?thesis by (simp add: resolveConflict_def)
  next
    case VersionBased
    with Some show ?thesis
      by (cases "version_prop (c_remoteData c)") (auto simp: resolveConflict_def Let_def)
  qed
qed

lemma inv_manual:
  assumes "manager_inv m" "map_of (conflicts m) cid = Some c"
  shows "manager_inv
           (m\<lparr>conflicts :=
                AList.update cid (c\<lparr>c_resolution := StatusManual\<rparr>) (conflicts m)\<rparr>)"
  using assms by (simp add: manager_inv_def update_conv')

lemma inv_resolveConflict:
  "manager_inv m \<Longrightarrow> manager_inv (snd (resolveConflict s2n cid r m))"
  using resolveConflict_state [of s2n cid r m]
  by (auto simp: inv_finish inv_manual)

lemma inv_add_conflict:
  assumes "manager_inv m" "truthy sd"
  shows "manager_inv
    (m\<lparr>conflicts := AList.update cid
          \<lparr> c_id = cid, c_localUpdate = u, c_remoteData = sd,
            c_resolution = StatusPending, c_timestamp = now \<rparr> (conflicts m)\<rparr>)"
  using assms by (simp add: manager_inv_def update_conv')

lemma inv_handleConflict:
  "manager_inv m \<Longrightarrow> truthy sd \<Longrightarrow> manager_inv (snd (handleConflict s2n cid now u sd m))"
  by (simp add: handleConflict_def Let_def inv_resolveConflict inv_add_conflict
      split: option.splits)

lemma inv_resolveUpdate:
  assumes "manager_inv m"
  shows "manager_inv (snd (resolveUpdate s2n cid now uid success sd m))"
proof (cases "map_of (updates m) uid")
  case None
  then show ?thesis using assms by (simp add: resolveUpdate_def)
next
  case (Some u)
  show ?thesis
  proof (cases "\<not> success \<and> truthy sd")
    case True
    then have "manager_inv (snd (handleConflict s2n cid now u sd m))"
      using assms inv_handleConflict by blast
    then show ?thesis using Some True
      by (cases "handleConflict s2n cid now u sd m")
         (auto simp: resolveUpdate_def split: completion.splits)
  next
    case False
    then show ?thesis using Some assms
      by (auto simp: resolveUpdate_def inv_delete_update)
  qed
qed

lemma reachable_inv: "reachable s2n m \<Longrightarrow> manager_inv m"
  by (induction rule: reachable.induct)
     (simp_all add: inv_new inv_applyUpdate inv_resolveUpdate inv_resolveConflict)


lemma map_of_fold_update:
  "distinct (map fst ps) \<Longrightarrow>
   map_of (fold (\<lambda>(k, x). AList.update k x) ps al) = map_of al ++ map_of ps"
proof (induction ps arbitrary: al)
  case Nil
  show ?case by simp
next
  case (Cons p ps)
  obtain k x where p: "p = (k, x)" by (cases p)
  from Cons.prems have d: "distinct (map fst ps)" and k: "k \<notin> dom (map_of ps)"
    by (auto simp: p dom_map_of_conv_image_fst)
  have "map_of (fold (\<lambda>(k, x). AList.update k x) (p # ps) al) =
        map_of (AList.update k x al) ++ map_of ps"
    using Cons.IH [OF d] by (simp add: p)
  also have "\<dots> = (map_of al ++ map_of ps)(k \<mapsto> x)"
    using k by (simp add: update_conv' map_add_upd_left)
  also have "\<dots> = map_of al ++ map_of (p # ps)"
    by (simp add: p)
  finally show ?case .
qed

lemma spread2_objects:
  assumes "distinct (map fst rf)" "distinct (map fst lf)"
  shows "\<exists>fs. spread2 (JObj rf) (JObj lf) = JObj fs \<and> map_of fs = map_of rf ++ map_of lf"
  using assms by (simp add: spread2_def spread_into_def map_of_fold_update)

lemma version_based_resolution:
  assumes "map_of (conflicts m) cid = Some c" "strategy r = VersionBased"
    and "version r = map_option Fin lv"
    and "c_remoteData c = JObj rf"
    and "map_of rf ''version'' = map_option (\<lambda>v. JNum (Fin v)) rv"
  shows "resolveConflict s2n cid r m =
           (Normal, finishResolution cid c
              (if (case rv of None \<Rightarrow> 0 | Some v \<Rightarrow> v) < (case lv of None \<Rightarrow> 0 | Some v \<Rightarrow> v) then u_data (c_localUpdate c)
               else c_remoteData c) m)"
proof -
  have l: "(case version r of None \<Rightarrow> Fin 0 | Some v \<Rightarrow> if num_truthy v then v else Fin 0)
           = Fin ((case lv of None \<Rightarrow> 0 | Some v \<Rightarrow> v))"
    using assms(3) by (cases lv) (auto simp: num_truthy_def)
  have "toNumber s2n (if truthy (case map_of rf ''version'' of None \<Rightarrow> JUndefined | Some v \<Rightarrow> v)
                      then (case map_of rf ''version'' of None \<Rightarrow> JUndefined | Some v \<Rightarrow> v)
                      else JNum (Fin 0)) = Fin ((case rv of None \<Rightarrow> 0 | Some v \<Rightarrow> v))"
    using assms(5) by (cases rv) (auto simp: num_truthy_def)
  then show ?thesis
    using assms(1,2,4) by (simp add: resolveConflict_def l Let_def)
qed

lemma sample_pending_eq:
  "sample_pending =
     \<lparr> updates = [(''update_1_a'', sample_update\<lparr>u_id := ''update_1_a'', u_timestamp := 1\<rparr>)],
       conflicts = [],
       events = [UpdatesNotified [sample_update\<lparr>u_id := ''update_1_a'', u_timestamp := 1\<rparr>]] \<rparr>"
  by (simp add: sample_pending_def applyUpdate_def newManager_def notifySubscribers_def
      getPendingUpdates_def Let_def)

lemma sample_conflicted_eq:
  "sample_conflicted =
     \<lparr> updates = [(''update_1_a'', sample_update\<lparr>u_id := ''update_1_a'', u_timestamp := 1\<rparr>)],
       conflicts = [(''conflict_2_b'', sample_conflict)],
       events = [UpdatesNotified [sample_update\<lparr>u_id := ''update_1_a'', u_timestamp := 1\<rparr>],
                 ConflictsNotified [sample_conflict],
                 UpdatesNotified [sample_update\<lparr>u_id := ''update_1_a'', u_timestamp := 1\<rparr>]] \<rparr>"
  by (simp add: sample_conflicted_def sample_pending_eq resolveUpdate_def handleConflict_def
      sample_remote_def sample_conflict_def sample_update_def notifySubscribers_def
      notifyConflictSubscribers_def getPendingUpdates_def getActiveConflicts_def Let_def)

text \<open>
  Claim C9: \<open>resolveConflict\<close> with an identifier that is not in the conflict map ends
  normally and returns the manager as it was: ledger, conflicts and trace unchanged, so
  no subscriber is notified. This covers a conflict already resolved and removed: after
  an automatic resolution that ended normally, resolving the same identifier again, with
  any strategy, changes nothing.
\<close>

theorem resolveConflict_missing_is_noop:
  "(map_of (conflicts m) cid = None \<longrightarrow> resolveConflict s2n cid r m = (Normal, m))
   \<and> (strategy r \<noteq> Manual \<and> fst (resolveConflict s2n cid r m) = Normal \<longrightarrow>
        resolveConflict s2n cid r' (snd (resolveConflict s2n cid r m)) =
          (Normal, snd (resolveConflict s2n cid r m)))"
proof (intro conjI impI)
  assume "map_of (conflicts m) cid = None"
  then show "resolveConflict s2n cid r m = (Normal, m)"
    by (simp add: resolveConflict_def)
next
  assume a: "strategy r \<noteq> Manual \<and> fst (resolveConflict s2n cid r m) = Normal"
  have "map_of (conflicts (snd (resolveConflict s2n cid r m))) cid = None"
  proof (cases "map_of (conflicts m) cid")
    case None
    then show ?thesis by (simp add: resolveConflict_def)
  next
    case (Some c)
    show ?thesis
    proof (cases "strategy r")
      case LastWriterWins
      with Some show ?thesis
        by (simp add: resolveConflict_def finish_conflicts delete_conv')
    next
      case Merge
      with Some show ?thesis
        by (cases "mergeFunction r")
           (simp_all add: resolveConflict_def finish_conflicts delete_conv')
    next
      case Manual
      with a show ?thesis by simp
    next
      case VersionBased
      with Some a show ?thesis
        by (cases "version_prop (c_remoteData c)")
           (simp_all add: resolveConflict_def Let_def finish_conflicts delete_conv')
    qed
  qed
  then show "resolveConflict s2n cid r' (snd (resolveConflict s2n cid r m)) =
          (Normal, snd (resolveConflict s2n cid r m))"
    by (simp add: resolveConflict_def)
qed

text \<open>An identifier never used, and the sample conflict resolved twice.\<close>

theorem resolveConflict_missing_is_noop_witness:
  "map_of (conflicts sample_pending) ''conflict_2_b'' = None
   \<and> resolveConflict not_numeric ''conflict_2_b''
        \<lparr> strategy = LastWriterWins, version = None, mergeFunction = None \<rparr> sample_pending
       = (Normal, sample_pending)
   \<and> fst (resolveConflict not_numeric ''conflict_2_b''
        \<lparr> strategy = LastWriterWins, version = None, mergeFunction = None \<rparr> sample_conflicted)
       = Normal
   \<and> resolveConflict not_numeric ''conflict_2_b''
        \<lparr> strategy = Merge, version = None, mergeFunction = None \<rparr>
        (snd (resolveConflict not_numeric ''conflict_2_b''
           \<lparr> strategy = LastWriterWins, version = None, mergeFunction = None \<rparr>
           sample_conflicted))
       = (Normal, snd (resolveConflict not_numeric ''conflict_2_b''
           \<lparr> strategy = LastWriterWins, version = None, mergeFunction = None \<rparr>
           sample_conflicted))"
proof -
  have a: "map_of (conflicts sample_pending) ''conflict_2_b'' = None"
    by (simp add: sample_pending_eq)
  have b: "fst (resolveConflict not_numeric ''conflict_2_b''
        \<lparr> strategy = LastWriterWins, version = None, mergeFunction = None \<rparr> sample_conflicted)
       = Normal"
    by (simp add: resolveConflict_def sample_conflicted_eq)
  show ?thesis
    using a b
      resolveConflict_missing_is_noop [where m = sample_pending and cid = "''conflict_2_b''"
        and s2n = not_numeric
        and r = "\<lparr> strategy = LastWriterWins, version = None, mergeFunction = None \<rparr>"]
      resolveConflict_missing_is_noop [where m = sample_conflicted and cid = "''conflict_2_b''"
        and s2n = not_numeric
        and r = "\<lparr> strategy = LastWriterWins, version = None, mergeFunction = None \<rparr>"
        and r' = "\<lparr> strategy = Merge, version = None, mergeFunction = None \<rparr>"]
    by simp
qed

text \<open>
  Claim C8: for a conflict in the map, \<open>resolveConflict\<close> ends normally with the common
  end run on the resolved data, which is: the local payload for \<open>last-writer-wins\<close>; the
  value of the custom function on (local, remote) for \<open>merge\<close> with such a function; the
  spread \<open>{...remote, ...local}\<close> for \<open>merge\<close> without one, which for two objects is the
  remote properties overridden by the local ones; and for \<open>version-based\<close>, with the
  strategy's version and the remote object's \<open>version\<close> property each a finite number or
  missing and then 0, the local payload if the local version is the greater and the
  remote data otherwise, whole in either case. The common end logs the resolved data as
  applied and notifies both groups of subscribers.
\<close>

theorem resolveConflict_strategies:
  assumes "map_of (conflicts m) cid = Some c"
  shows "(strategy r = LastWriterWins \<longrightarrow>
            resolveConflict s2n cid r m =
              (Normal, finishResolution cid c (u_data (c_localUpdate c)) m))
     \<and> (\<forall>f. strategy r = Merge \<and> mergeFunction r = Some f \<longrightarrow>
            resolveConflict s2n cid r m =
              (Normal, finishResolution cid c (f (u_data (c_localUpdate c)) (c_remoteData c)) m))
     \<and> (strategy r = Merge \<and> mergeFunction r = None \<longrightarrow>
            resolveConflict s2n cid r m =
              (Normal, finishResolution cid c
                 (spread2 (c_remoteData c) (u_data (c_localUpdate c))) m))
     \<and> (\<forall>rf lf. distinct (map fst rf) \<and> distinct (map fst lf) \<longrightarrow>
            (\<exists>fs. spread2 (JObj rf) (JObj lf) = JObj fs \<and> map_of fs = map_of rf ++ map_of lf))
     \<and> (\<forall>lv rv rf. strategy r = VersionBased \<and> version r = map_option Fin lv
            \<and> c_remoteData c = JObj rf
            \<and> map_of rf ''version'' = map_option (\<lambda>v. JNum (Fin v)) rv \<longrightarrow>
            resolveConflict s2n cid r m =
              (Normal, finishResolution cid c
                 (if (case rv of None \<Rightarrow> 0 | Some v \<Rightarrow> v) < (case lv of None \<Rightarrow> 0 | Some v \<Rightarrow> v)
                  then u_data (c_localUpdate c) else c_remoteData c) m))
     \<and> (\<forall>d. events (finishResolution cid c d m) =
            events m @
            [AppliedResolved (u_collection (c_localUpdate c)) d,
             ConflictsNotified
               (filter (\<lambda>c. c_resolution c = StatusPending \<or> c_resolution c = StatusManual)
                  (map snd (AList.delete cid (conflicts m)))),
             UpdatesNotified (map snd (AList.delete (u_id (c_localUpdate c)) (updates m)))])"
proof -
  have 1: "strategy r = LastWriterWins \<longrightarrow>
            resolveConflict s2n cid r m =
              (Normal, finishResolution cid c (u_data (c_localUpdate c)) m)"
    using assms by (simp add: resolveConflict_def)
  have 2: "\<forall>f. strategy r = Merge \<and> mergeFunction r = Some f \<longrightarrow>
            resolveConflict s2n cid r m =
              (Normal, finishResolution cid c (f (u_data (c_localUpdate c)) (c_remoteData c)) m)"
    using assms by (simp add: resolveConflict_def)
  have 3: "strategy r = Merge \<and> mergeFunction r = None \<longrightarrow>
            resolveConflict s2n cid r m =
              (Normal, finishResolution cid c
                 (spread2 (c_remoteData c) (u_data (c_localUpdate c))) m)"
    using assms by (simp add: resolveConflict_def)
  have 4: "\<forall>rf lf. distinct (map fst rf) \<and> distinct (map fst lf) \<longrightarrow>
            (\<exists>fs. spread2 (JObj rf) (JObj lf) = JObj fs \<and> map_of fs = map_of rf ++ map_of lf)"
    using spread2_objects by blast
  have 5: "\<forall>lv rv rf. strategy r = VersionBased \<and> version r = map_option Fin lv
            \<and> c_remoteData c = JObj rf
            \<and> map_of rf ''version'' = map_option (\<lambda>v. JNum (Fin v)) rv \<longrightarrow>
            resolveConflict s2n cid r m =
              (Normal, finishResolution cid c
                 (if (case rv of None \<Rightarrow> 0 | Some v \<Rightarrow> v) < (case lv of None \<Rightarrow> 0 | Some v \<Rightarrow> v)
                  then u_data (c_localUpdate c) else c_remoteData c) m)"
    using version_based_resolution [OF assms] by blast
  have 6: "\<forall>d. events (finishResolution cid c d m) =
            events m @
            [AppliedResolved (u_collection (c_localUpdate c)) d,
             ConflictsNotified
               (filter (\<lambda>c. c_resolution c = StatusPending \<or> c_resolution c = StatusManual)
                  (map snd (AList.delete cid (conflicts m)))),
             UpdatesNotified (map snd (AList.delete (u_id (c_localUpdate c)) (updates m)))]"
    by (simp add: finish_events)
  from 1 2 3 4 5 6 show ?thesis by blast
qed

text \<open>
  Claim C10: with the \<open>version-based\<close> strategy and equal versions (a missing one
  counting as 0), the resolved data is the remote data, whole.
\<close>

theorem version_tie_goes_to_remote:
  assumes "map_of (conflicts m) cid = Some c" and "strategy r = VersionBased"
    and "version r = map_option Fin lv"
    and "c_remoteData c = JObj rf"
    and "map_of rf ''version'' = map_option (\<lambda>v. JNum (Fin v)) rv"
    and "(case lv of None \<Rightarrow> 0 | Some v \<Rightarrow> v) = (case rv of None \<Rightarrow> 0 | Some v \<Rightarrow> v)"
  shows "resolveConflict s2n cid r m = (Normal, finishResolution cid c (c_remoteData c) m)
     \<and> events (finishResolution cid c (c_remoteData c) m) =
            events m @
            [AppliedResolved (u_collection (c_localUpdate c)) (c_remoteData c),
             ConflictsNotified
               (filter (\<lambda>c. c_resolution c = StatusPending \<or> c_resolution c = StatusManual)
                  (map snd (AList.delete cid (conflicts m)))),
             UpdatesNotified (map snd (AList.delete (u_id (c_localUpdate c)) (updates m)))]"
  using version_based_resolution [OF assms(1-5), of s2n] assms(6)
  by (simp add: finish_events)

lemma truthy_version_prop: "truthy sd \<Longrightarrow> version_prop sd \<noteq> None"
  by (cases sd) simp_all

lemma resolveConflict_auto:
  assumes "map_of (conflicts m) cid = Some c" "strategy r \<noteq> Manual"
    and "version_prop (c_remoteData c) \<noteq> None"
  shows "\<exists>d. resolveConflict s2n cid r m = (Normal, finishResolution cid c d m)"
proof (cases "strategy r")
  case LastWriterWins
  with assms(1) show ?thesis by (auto simp: resolveConflict_def)
next
  case Merge
  with assms(1) show ?thesis by (cases "mergeFunction r") (auto simp: resolveConflict_def)
next
  case Manual
  with assms(2) show ?thesis by simp
next
  case VersionBased
  from assms(3) obtain rv where "version_prop (c_remoteData c) = Some rv" by blast
  with VersionBased assms(1) show ?thesis by (auto simp: resolveConflict_def Let_def)
qed

lemma resolveConflict_manual:
  assumes "map_of (conflicts m) cid = Some c" "strategy r = Manual"
  shows "resolveConflict s2n cid r m =
           (Normal, notifyConflictSubscribers
              (m\<lparr>conflicts :=
                   AList.update cid (c\<lparr>c_resolution := StatusManual\<rparr>) (conflicts m)\<rparr>))"
  using assms by (simp add: resolveConflict_def)

lemma resolveUpdate_conflict:
  assumes "map_of (updates m) uid = Some u" "truthy sd"
  shows "resolveUpdate s2n cid now uid False sd m =
     (case handleConflict s2n cid now u sd m of
        (Normal, m') \<Rightarrow> (Normal, notifySubscribers m')
      | (TypeError, m') \<Rightarrow> (TypeError, m'))"
  using assms by (simp add: resolveUpdate_def)

lemma conflicted_update_after_resolveUpdate:
  assumes "reachable s2n m" and "map_of (updates m) uid = Some u" and "truthy sd"
  shows "manager_inv m
     \<and> fst (resolveUpdate s2n cid now uid False sd m) = Normal
     \<and> (case u_conflictResolution u of
          None \<Rightarrow>
            map_of (updates (snd (resolveUpdate s2n cid now uid False sd m))) uid = Some u
            \<and> map_of (conflicts (snd (resolveUpdate s2n cid now uid False sd m))) cid =
                Some \<lparr> c_id = cid, c_localUpdate = u, c_remoteData = sd,
                       c_resolution = StatusPending, c_timestamp = now \<rparr>
        | Some r \<Rightarrow>
            if strategy r = Manual
            then map_of (updates (snd (resolveUpdate s2n cid now uid False sd m))) uid = Some u
              \<and> map_of (conflicts (snd (resolveUpdate s2n cid now uid False sd m))) cid =
                  Some \<lparr> c_id = cid, c_localUpdate = u, c_remoteData = sd,
                         c_resolution = StatusManual, c_timestamp = now \<rparr>
            else map_of (updates (snd (resolveUpdate s2n cid now uid False sd m))) uid = None
              \<and> map_of (conflicts (snd (resolveUpdate s2n cid now uid False sd m))) cid = None)"
proof -
  have inv: "manager_inv m" using assms(1) by (rule reachable_inv)
  then have id: "u_id u = uid" using assms(2) by (simp add: manager_inv_def)
  define c where "c = \<lparr> c_id = cid, c_localUpdate = u, c_remoteData = sd,
                       c_resolution = StatusPending, c_timestamp = now \<rparr>"
  define m1 where "m1 = notifyConflictSubscribers
                          (m\<lparr>conflicts := AList.update cid c (conflicts m)\<rparr>)"
  have m1c: "map_of (conflicts m1) cid = Some c" by (simp add: m1_def update_conv')
  have m1u: "updates m1 = updates m" by (simp add: m1_def)
  have hc: "handleConflict s2n cid now u sd m =
              (case u_conflictResolution u of None \<Rightarrow> (Normal, m1)
               | Some r \<Rightarrow> resolveConflict s2n cid r m1)"
    by (cases "u_conflictResolution u") (simp_all add: handleConflict_def Let_def c_def m1_def)
  note ru = resolveUpdate_conflict [OF assms(2,3), of s2n cid now]
  show ?thesis
  proof (cases "u_conflictResolution u")
    case None
    then have "resolveUpdate s2n cid now uid False sd m = (Normal, notifySubscribers m1)"
      by (simp add: ru hc)
    then show ?thesis using inv None m1c m1u assms(2) by (simp add: c_def)
  next
    case (Some r)
    show ?thesis
    proof (cases "strategy r = Manual")
      case True
      have "resolveUpdate s2n cid now uid False sd m =
              (Normal, notifySubscribers (notifyConflictSubscribers
                 (m1\<lparr>conflicts :=
                      AList.update cid (c\<lparr>c_resolution := StatusManual\<rparr>) (conflicts m1)\<rparr>)))"
        by (simp add: ru hc Some resolveConflict_manual [OF m1c True])
      then show ?thesis using inv Some True m1u assms(2)
        by (simp add: c_def update_conv')
    next
      case False
      have "version_prop (c_remoteData c) \<noteq> None"
        using assms(3) by (simp add: c_def truthy_version_prop)
      from resolveConflict_auto [OF m1c False this, of s2n] obtain d where
        "resolveConflict s2n cid r m1 = (Normal, finishResolution cid c d m1)" by blast
      then have "resolveUpdate s2n cid now uid False sd m =
              (Normal, notifySubscribers (finishResolution cid c d m1))"
        by (simp add: ru hc Some)
      then show ?thesis using inv Some False id
        by (simp add: finish_updates finish_conflicts delete_conv' c_def)
    qed
  qed
qed

lemma reachable_sample_pending: "reachable s2n sample_pending"
  unfolding sample_pending_def by (rule reach_applyUpdate [OF reach_new])

lemma reachable_sample_conflicted: "reachable not_numeric sample_conflicted"
  unfolding sample_conflicted_def by (rule reach_resolveUpdate [OF reachable_sample_pending])

lemma automatic_resolution_removes_both:
  assumes "reachable s2n m" and "map_of (conflicts m) k = Some c" and "strategy r \<noteq> Manual"
  shows "fst (resolveConflict s2n k r m) = Normal
     \<and> map_of (conflicts (snd (resolveConflict s2n k r m))) k = None
     \<and> map_of (updates (snd (resolveConflict s2n k r m))) (u_id (c_localUpdate c)) = None"
proof -
  have "manager_inv m" using assms(1) by (rule reachable_inv)
  then have "truthy (c_remoteData c)" using assms(2) by (simp add: manager_inv_def)
  then have "version_prop (c_remoteData c) \<noteq> None" by (rule truthy_version_prop)
  from resolveConflict_auto [OF assms(2,3) this, of s2n] obtain d where
    "resolveConflict s2n k r m = (Normal, finishResolution k c d m)" by blast
  then show ?thesis by (simp add: finish_updates finish_conflicts delete_conv')
qed

text \<open>
  Claim C1, amended: in every state the manager reaches, each ledger entry is stored
  under its own identifier and each conflict under its own, with truthy server data and
  not marked resolved. An update can be in the ledger and in a conflict at once:
  \<open>resolveUpdate(id, false, serverData)\<close> with truthy server data on an update of the
  ledger ends normally; if the update names no strategy, or \<open>manual\<close>, the update is
  right after the call both in the ledger and in the new conflict (pending, or manual);
  if it names an automatic strategy, the conflict and the ledger entry are both gone
  after the call. In every state the manager reaches, \<open>resolveConflict\<close> with an automatic
  strategy on a conflict of the map ends normally and leaves neither that conflict in
  the map nor an entry under its update's identifier in the ledger.
\<close>

theorem ledger_entry_kept_while_conflicted:
  assumes "reachable s2n m" and "map_of (updates m) uid = Some u" and "truthy sd"
  shows "(manager_inv m
     \<and> fst (resolveUpdate s2n cid now uid False sd m) = Normal
     \<and> (case u_conflictResolution u of
          None \<Rightarrow>
            map_of (updates (snd (resolveUpdate s2n cid now uid False sd m))) uid = Some u
            \<and> map_of (conflicts (snd (resolveUpdate s2n cid now uid False sd m))) cid =
                Some \<lparr> c_id = cid, c_localUpdate = u, c_remoteData = sd,
                       c_resolution = StatusPending, c_timestamp = now \<rparr>
        | Some r \<Rightarrow>
            if strategy r = Manual
            then map_of (updates (snd (resolveUpdate s2n cid now uid False sd m))) uid = Some u
              \<and> map_of (conflicts (snd (resolveUpdate s2n cid now uid False sd m))) cid =
                  Some \<lparr> c_id = cid, c_localUpdate = u, c_remoteData = sd,
                         c_resolution = StatusManual, c_timestamp = now \<rparr>
            else map_of (updates (snd (resolveUpdate s2n cid now uid False sd m))) uid = None
              \<and> map_of (conflicts (snd (resolveUpdate s2n cid now uid False sd m))) cid = None))
     \<and> (\<forall>m2 k c (r::ConflictResolutionStrategy).
          reachable s2n m2 \<and> map_of (conflicts m2) k = Some c \<and> strategy r \<noteq> Manual \<longrightarrow>
          fst (resolveConflict s2n k r m2) = Normal
          \<and> map_of (conflicts (snd (resolveConflict s2n k r m2))) k = None
          \<and> map_of (updates (snd (resolveConflict s2n k r m2))) (u_id (c_localUpdate c)) = None)"
proof (rule conjI)
  show "manager_inv m
     \<and> fst (resolveUpdate s2n cid now uid False sd m) = Normal
     \<and> (case u_conflictResolution u of
          None \<Rightarrow>
            map_of (updates (snd (resolveUpdate s2n cid now uid False sd m))) uid = Some u
            \<and> map_of (conflicts (snd (resolveUpdate s2n cid now uid False sd m))) cid =
                Some \<lparr> c_id = cid, c_localUpdate = u, c_remoteData = sd,
                       c_resolution = StatusPending, c_timestamp = now \<rparr>
        | Some r \<Rightarrow>
            if strategy r = Manual
            then map_of (updates (snd (resolveUpdate s2n cid now uid False sd m))) uid = Some u
              \<and> map_of (conflicts (snd (resolveUpdate s2n cid now uid False sd m))) cid =
                  Some \<lparr> c_id = cid, c_localUpdate = u, c_remoteData = sd,
                         c_resolution = StatusManual, c_timestamp = now \<rparr>
            else map_of (updates (snd (resolveUpdate s2n cid now uid False sd m))) uid = None
              \<and> map_of (conflicts (snd (resolveUpdate s2n cid now uid False sd m))) cid = None)"
    by (rule conflicted_update_after_resolveUpdate [OF assms])
next
  show "\<forall>m2 k c (r::ConflictResolutionStrategy).
          reachable s2n m2 \<and> map_of (conflicts m2) k = Some c \<and> strategy r \<noteq> Manual \<longrightarrow>
          fst (resolveConflict s2n k r m2) = Normal
          \<and> map_of (conflicts (snd (resolveConflict s2n k r m2))) k = None
          \<and> map_of (updates (snd (resolveConflict s2n k r m2))) (u_id (c_localUpdate c)) = None"
    using automatic_resolution_removes_both by blast
qed

text \<open>
  Claim C1, as stated, fails: in the sample run, a reachable state, the update
  \<open>update_1_a\<close> is in the ledger and in the pending conflict at once.
\<close>

theorem update_in_ledger_and_conflict_counterexample:
  "reachable not_numeric sample_conflicted
   \<and> map fst (updates sample_conflicted) = [''update_1_a'']
   \<and> map (u_id \<circ> c_localUpdate \<circ> snd) (conflicts sample_conflicted) = [''update_1_a'']
   \<and> map (c_resolution \<circ> snd) (conflicts sample_conflicted) = [StatusPending]"
  by (simp add: reachable_sample_conflicted)
     (simp add: sample_conflicted_eq sample_conflict_def)

text \<open>The sample run, whose update names no strategy.\<close>

theorem ledger_entry_kept_while_conflicted_witness:
  "reachable not_numeric sample_pending
   \<and> map_of (updates sample_pending) ''update_1_a'' =
       Some (sample_update\<lparr>u_id := ''update_1_a'', u_timestamp := 1\<rparr>)
   \<and> truthy sample_remote
   \<and> manager_inv sample_pending
   \<and> fst (resolveUpdate not_numeric ''conflict_2_b'' 2 ''update_1_a'' False sample_remote
            sample_pending) = Normal
   \<and> map_of (updates sample_conflicted) ''update_1_a'' =
       Some (sample_update\<lparr>u_id := ''update_1_a'', u_timestamp := 1\<rparr>)
   \<and> map_of (conflicts sample_conflicted) ''conflict_2_b'' = Some sample_conflict
   \<and> reachable not_numeric sample_conflicted
   \<and> fst (resolveConflict not_numeric ''conflict_2_b''
            \<lparr> strategy = LastWriterWins, version = None, mergeFunction = None \<rparr>
            sample_conflicted) = Normal
   \<and> map_of (conflicts (snd (resolveConflict not_numeric ''conflict_2_b''
            \<lparr> strategy = LastWriterWins, version = None, mergeFunction = None \<rparr>
            sample_conflicted))) ''conflict_2_b'' = None
   \<and> map_of (updates (snd (resolveConflict not_numeric ''conflict_2_b''
            \<lparr> strategy = LastWriterWins, version = None, mergeFunction = None \<rparr>
            sample_conflicted))) ''update_1_a'' = None"
proof -
  have a: "reachable not_numeric sample_pending" by (rule reachable_sample_pending)
  have b: "map_of (updates sample_pending) ''update_1_a'' =
       Some (sample_update\<lparr>u_id := ''update_1_a'', u_timestamp := 1\<rparr>)"
    by (simp add: sample_pending_eq)
  have c: "truthy sample_remote" by (simp add: sample_remote_def)
  have n: "u_conflictResolution sample_update = None"
    by (simp add: sample_update_def)
  note th = ledger_entry_kept_while_conflicted [OF a b c, of "''conflict_2_b''" 2]
  have first: "manager_inv sample_pending
   \<and> fst (resolveUpdate not_numeric ''conflict_2_b'' 2 ''update_1_a'' False sample_remote
            sample_pending) = Normal
   \<and> map_of (updates sample_conflicted) ''update_1_a'' =
       Some (sample_update\<lparr>u_id := ''update_1_a'', u_timestamp := 1\<rparr>)
   \<and> map_of (conflicts sample_conflicted) ''conflict_2_b'' = Some sample_conflict"
    using th [THEN conjunct1] by (simp add: n sample_conflicted_def sample_conflict_def)
  have r: "reachable not_numeric sample_conflicted" by (rule reachable_sample_conflicted)
  have k: "map_of (conflicts sample_conflicted) ''conflict_2_b'' = Some sample_conflict"
    by (simp add: sample_conflicted_eq)
  have i: "u_id (c_localUpdate sample_conflict) = ''update_1_a''"
    by (simp add: sample_conflict_def)
  have second: "fst (resolveConflict not_numeric ''conflict_2_b''
            \<lparr> strategy = LastWriterWins, version = None, mergeFunction = None \<rparr>
            sample_conflicted) = Normal
   \<and> map_of (conflicts (snd (resolveConflict not_numeric ''conflict_2_b''
            \<lparr> strategy = LastWriterWins, version = None, mergeFunction = None \<rparr>
            sample_conflicted))) ''conflict_2_b'' = None
   \<and> map_of (updates (snd (resolveConflict not_numeric ''conflict_2_b''
            \<lparr> strategy = LastWriterWins, version = None, mergeFunction = None \<rparr>
            sample_conflicted))) ''update_1_a'' = None"
    using th [THEN conjunct2, rule_format,
        where ?m2.0 = sample_conflicted and k = "''conflict_2_b''" and c = sample_conflict
          and r = "\<lparr> strategy = LastWriterWins, version = None, mergeFunction = None \<rparr>"]
      r k
    by (simp add: i)
  from a b c first r second show ?thesis by blast
qed

text \<open>
  Claim C7, as stated, fails for an update that names an automatic strategy: the
  conflict made by \<open>resolveUpdate(id, false, serverData)\<close> is resolved at once with that
  strategy, here \<open>merge\<close>, and removed; resolving it afterwards with
  \<open>last-writer-wins\<close> changes nothing, and what was applied is the merged object, not the
  local payload.
\<close>

theorem auto_resolved_conflict_counterexample:
  "sample_merging =
     \<lparr> updates = [], conflicts = [],
       events =
         [UpdatesNotified
            [sample_update\<lparr>u_id := ''update_1_a'', u_timestamp := 1,
               u_conflictResolution :=
                 Some \<lparr> strategy = Merge, version = None, mergeFunction = None \<rparr>\<rparr>],
          ConflictsNotified
            [sample_conflict\<lparr>c_localUpdate :=
               sample_update\<lparr>u_id := ''update_1_a'', u_timestamp := 1,
                 u_conflictResolution :=
                   Some \<lparr> strategy = Merge, version = None, mergeFunction = None \<rparr>\<rparr>\<rparr>],
          AppliedResolved ''annotations''
            (JObj [(''content'', JStr ''mine''), (''version'', JNum (Fin 1)),
                   (''color'', JStr ''red'')]),
          ConflictsNotified [],
          UpdatesNotified [],
          UpdatesNotified []] \<rparr>
   \<and> resolveConflict not_numeric ''conflict_2_b''
        \<lparr> strategy = LastWriterWins, version = None, mergeFunction = None \<rparr> sample_merging =
       (Normal, sample_merging)
   \<and> u_data sample_update = JObj [(''content'', JStr ''mine''), (''color'', JStr ''red'')]"
proof -
  have e: "sample_merging =
     \<lparr> updates = [], conflicts = [],
       events =
         [UpdatesNotified
            [sample_update\<lparr>u_id := ''update_1_a'', u_timestamp := 1,
               u_conflictResolution :=
                 Some \<lparr> strategy = Merge, version = None, mergeFunction = None \<rparr>\<rparr>],
          ConflictsNotified
            [sample_conflict\<lparr>c_localUpdate :=
               sample_update\<lparr>u_id := ''update_1_a'', u_timestamp := 1,
                 u_conflictResolution :=
                   Some \<lparr> strategy = Merge, version = None, mergeFunction = None \<rparr>\<rparr>\<rparr>],
          AppliedResolved ''annotations''
            (JObj [(''content'', JStr ''mine''), (''version'', JNum (Fin 1)),
                   (''color'', JStr ''red'')]),
          ConflictsNotified [],
          UpdatesNotified [],
          UpdatesNotified []] \<rparr>"
    by (simp add: sample_merging_def applyUpdate_def newManager_def resolveUpdate_def
        handleConflict_def resolveConflict_def finishResolution_def applyResolvedData_def
        notifySubscribers_def notifyConflictSubscribers_def getPendingUpdates_def
        getActiveConflicts_def sample_remote_def sample_conflict_def sample_update_def
        spread2_def spread_into_def Let_def)
  have n: "map_of (conflicts sample_merging) ''conflict_2_b'' = None"
    by (simp add: e)
  have r: "resolveConflict not_numeric ''conflict_2_b''
        \<lparr> strategy = LastWriterWins, version = None, mergeFunction = None \<rparr> sample_merging =
       (Normal, sample_merging)"
    using n by (simp add: resolveConflict_def)
  have d: "u_data sample_update = JObj [(''content'', JStr ''mine''), (''color'', JStr ''red'')]"
    by (simp add: sample_update_def)
  from e r d show ?thesis by blast
qed

text \<open>
  Claim C7, amended: for an identifier in the ledger, \<open>resolveUpdate(id, true)\<close> deletes
  the entry and notifies; \<open>resolveUpdate(id, false)\<close> with falsy (in particular absent)
  server data does the same; with truthy server data it stores one conflict that
  references the update, pending, under the new identifier (one more entry of the
  conflict map when the identifier is new), notifies, and hands it to \<open>resolveConflict\<close>
  at once when the update names a strategy. For an update that names none and is stored
  under its own identifier, resolving that conflict afterwards with \<open>last-writer-wins\<close>
  ends normally, logs the local payload as applied and leaves the ledger without the
  update and the conflict map without the conflict.
\<close>

theorem resolveUpdate_outcomes:
  assumes "map_of (updates m) uid = Some u"
  shows "resolveUpdate s2n cid now uid True sd m =
           (Normal, notifySubscribers (m\<lparr>updates := AList.delete uid (updates m)\<rparr>))
     \<and> (\<not> truthy sd \<longrightarrow>
          resolveUpdate s2n cid now uid False sd m =
            (Normal, notifySubscribers (m\<lparr>updates := AList.delete uid (updates m)\<rparr>)))
     \<and> map_of (AList.delete uid (updates m)) uid = None
     \<and> (truthy sd \<and> u_conflictResolution u = None \<longrightarrow>
          resolveUpdate s2n cid now uid False sd m =
            (Normal,
             notifySubscribers
               (notifyConflictSubscribers
                  (m\<lparr>conflicts :=
                       AList.update cid
                         \<lparr> c_id = cid, c_localUpdate = u, c_remoteData = sd,
                           c_resolution = StatusPending, c_timestamp = now \<rparr>
                         (conflicts m)\<rparr>)))
          \<and> (map_of (conflicts m) cid = None \<longrightarrow>
               AList.update cid
                 \<lparr> c_id = cid, c_localUpdate = u, c_remoteData = sd,
                   c_resolution = StatusPending, c_timestamp = now \<rparr> (conflicts m) =
               conflicts m @
                 [(cid, \<lparr> c_id = cid, c_localUpdate = u, c_remoteData = sd,
                          c_resolution = StatusPending, c_timestamp = now \<rparr>)]))
     \<and> (\<forall>r. truthy sd \<and> u_conflictResolution u = Some r \<longrightarrow>
          resolveUpdate s2n cid now uid False sd m =
            (case resolveConflict s2n cid r
                    (notifyConflictSubscribers
                       (m\<lparr>conflicts :=
                            AList.update cid
                              \<lparr> c_id = cid, c_localUpdate = u, c_remoteData = sd,
                                c_resolution = StatusPending, c_timestamp = now \<rparr>
                              (conflicts m)\<rparr>)) of
               (Normal, m') \<Rightarrow> (Normal, notifySubscribers m')
             | (TypeError, m') \<Rightarrow> (TypeError, m')))
     \<and> (\<forall>r. truthy sd \<and> u_conflictResolution u = None \<and> u_id u = uid
            \<and> strategy r = LastWriterWins \<longrightarrow>
          fst (resolveConflict s2n cid r
                 (snd (resolveUpdate s2n cid now uid False sd m))) = Normal
          \<and> updates (snd (resolveConflict s2n cid r
                 (snd (resolveUpdate s2n cid now uid False sd m)))) =
              AList.delete uid (updates m)
          \<and> conflicts (snd (resolveConflict s2n cid r
                 (snd (resolveUpdate s2n cid now uid False sd m)))) =
              AList.delete cid (conflicts m)
          \<and> events (snd (resolveConflict s2n cid r
                 (snd (resolveUpdate s2n cid now uid False sd m)))) =
              events (snd (resolveUpdate s2n cid now uid False sd m)) @
              [AppliedResolved (u_collection u) (u_data u),
               ConflictsNotified
                 (filter (\<lambda>c. c_resolution c = StatusPending \<or> c_resolution c = StatusManual)
                    (map snd (AList.delete cid (conflicts m)))),
               UpdatesNotified (map snd (AList.delete uid (updates m)))])"
proof -
  define c where "c = \<lparr> c_id = cid, c_localUpdate = u, c_remoteData = sd,
                       c_resolution = StatusPending, c_timestamp = now \<rparr>"
  define m1 where "m1 = notifyConflictSubscribers
                          (m\<lparr>conflicts := AList.update cid c (conflicts m)\<rparr>)"
  have 1: "resolveUpdate s2n cid now uid True sd m =
           (Normal, notifySubscribers (m\<lparr>updates := AList.delete uid (updates m)\<rparr>))"
    using assms by (simp add: resolveUpdate_def)
  have 2: "\<not> truthy sd \<longrightarrow>
          resolveUpdate s2n cid now uid False sd m =
            (Normal, notifySubscribers (m\<lparr>updates := AList.delete uid (updates m)\<rparr>))"
    using assms by (simp add: resolveUpdate_def)
  have 3: "map_of (AList.delete uid (updates m)) uid = None"
    by (simp add: delete_conv')
  have hc: "handleConflict s2n cid now u sd m =
              (case u_conflictResolution u of None \<Rightarrow> (Normal, m1)
               | Some r \<Rightarrow> resolveConflict s2n cid r m1)"
    by (cases "u_conflictResolution u") (simp_all add: handleConflict_def Let_def c_def m1_def)
  have none: "truthy sd \<and> u_conflictResolution u = None \<longrightarrow>
          resolveUpdate s2n cid now uid False sd m = (Normal, notifySubscribers m1)"
    using assms by (simp add: resolveUpdate_def hc)
  have 4: "map_of (conflicts m) cid = None \<longrightarrow>
             AList.update cid c (conflicts m) = conflicts m @ [(cid, c)]"
    by (simp add: update_absent map_of_eq_None_iff)
  have 5: "\<forall>r. truthy sd \<and> u_conflictResolution u = Some r \<longrightarrow>
          resolveUpdate s2n cid now uid False sd m =
            (case resolveConflict s2n cid r m1 of
               (Normal, m') \<Rightarrow> (Normal, notifySubscribers m')
             | (TypeError, m') \<Rightarrow> (TypeError, m'))"
    using assms by (simp add: resolveUpdate_def hc)
  have 6: "\<forall>r. truthy sd \<and> u_conflictResolution u = None \<and> u_id u = uid
            \<and> strategy r = LastWriterWins \<longrightarrow>
          fst (resolveConflict s2n cid r
                 (snd (resolveUpdate s2n cid now uid False sd m))) = Normal
          \<and> updates (snd (resolveConflict s2n cid r
                 (snd (resolveUpdate s2n cid now uid False sd m)))) =
              AList.delete uid (updates m)
          \<and> conflicts (snd (resolveConflict s2n cid r
                 (snd (resolveUpdate s2n cid now uid False sd m)))) =
              AList.delete cid (conflicts m)
          \<and> events (snd (resolveConflict s2n cid r
                 (snd (resolveUpdate s2n cid now uid False sd m)))) =
              events (snd (resolveUpdate s2n cid now uid False sd m)) @
              [AppliedResolved (u_collection u) (u_data u),
               ConflictsNotified
                 (filter (\<lambda>c. c_resolution c = StatusPending \<or> c_resolution c = StatusManual)
                    (map snd (AList.delete cid (conflicts m)))),
               UpdatesNotified (map snd (AList.delete uid (updates m)))]"
  proof (intro allI impI)
    fix r :: ConflictResolutionStrategy
    assume h: "truthy sd \<and> u_conflictResolution u = None \<and> u_id u = uid
            \<and> strategy r = LastWriterWins"
    let ?m2 = "notifySubscribers m1"
    have ru: "resolveUpdate s2n cid now uid False sd m = (Normal, ?m2)"
      using h none by blast
    have mc: "map_of (conflicts ?m2) cid = Some c" by (simp add: m1_def update_conv')
    have rc: "resolveConflict s2n cid r ?m2 =
                (Normal, finishResolution cid c (u_data (c_localUpdate c)) ?m2)"
      using mc h by (simp add: resolveConflict_def)
    show "fst (resolveConflict s2n cid r
                 (snd (resolveUpdate s2n cid now uid False sd m))) = Normal
          \<and> updates (snd (resolveConflict s2n cid r
                 (snd (resolveUpdate s2n cid now uid False sd m)))) =
              AList.delete uid (updates m)
          \<and> conflicts (snd (resolveConflict s2n cid r
                 (snd (resolveUpdate s2n cid now uid False sd m)))) =
              AList.delete cid (conflicts m)
          \<and> events (snd (resolveConflict s2n cid r
                 (snd (resolveUpdate s2n cid now uid False sd m)))) =
              events (snd (resolveUpdate s2n cid now uid False sd m)) @
              [AppliedResolved (u_collection u) (u_data u),
               ConflictsNotified
                 (filter (\<lambda>c. c_resolution c = StatusPending \<or> c_resolution c = StatusManual)
                    (map snd (AList.delete cid (conflicts m)))),
               UpdatesNotified (map snd (AList.delete uid (updates m)))]"
      using h
      apply (simp only: ru snd_conv rc fst_conv)
      apply (simp add: finish_updates finish_conflicts finish_events)
      apply (simp add: c_def m1_def delete_update_same)
      done
  qed
  from 1 2 3 none 4 5 6 show ?thesis
    unfolding m1_def c_def by blast
qed

lemma sample_conflict_lookup:
  "map_of (conflicts sample_conflicted) ''conflict_2_b'' = Some sample_conflict"
  by (simp add: sample_conflicted_eq)

lemma sample_conflict_fields:
  "c_remoteData sample_conflict = JObj [(''content'', JStr ''theirs''), (''version'', JNum (Fin 1))]"
  "u_data (c_localUpdate sample_conflict) =
     JObj [(''content'', JStr ''mine''), (''color'', JStr ''red'')]"
  "u_collection (c_localUpdate sample_conflict) = ''annotations''"
  "u_id (c_localUpdate sample_conflict) = ''update_1_a''"
  by (simp_all add: sample_conflict_def sample_remote_def sample_update_def)

text \<open>The sample update confirmed, refused without data, and refused with data and then
  resolved: ledger and conflict map end empty.\<close>

theorem resolveUpdate_outcomes_witness:
  "map_of (updates sample_pending) ''update_1_a'' =
       Some (sample_update\<lparr>u_id := ''update_1_a'', u_timestamp := 1\<rparr>)
   \<and> resolveUpdate not_numeric ''conflict_2_b'' 2 ''update_1_a'' True JUndefined sample_pending =
       (Normal,
        \<lparr> updates = [], conflicts = [],
          events = [UpdatesNotified [sample_update\<lparr>u_id := ''update_1_a'', u_timestamp := 1\<rparr>],
                    UpdatesNotified []] \<rparr>)
   \<and> resolveUpdate not_numeric ''conflict_2_b'' 2 ''update_1_a'' False JUndefined sample_pending =
       (Normal,
        \<lparr> updates = [], conflicts = [],
          events = [UpdatesNotified [sample_update\<lparr>u_id := ''update_1_a'', u_timestamp := 1\<rparr>],
                    UpdatesNotified []] \<rparr>)
   \<and> conflicts (snd (resolveUpdate not_numeric ''conflict_2_b'' 2 ''update_1_a'' False
                        sample_remote sample_pending)) =
       [(''conflict_2_b'', sample_conflict)]
   \<and> resolveConflict not_numeric ''conflict_2_b''
        \<lparr> strategy = LastWriterWins, version = None, mergeFunction = None \<rparr>
        (snd (resolveUpdate not_numeric ''conflict_2_b'' 2 ''update_1_a'' False
                sample_remote sample_pending)) =
       (Normal,
        \<lparr> updates = [], conflicts = [],
          events = [UpdatesNotified [sample_update\<lparr>u_id := ''update_1_a'', u_timestamp := 1\<rparr>],
                    ConflictsNotified [sample_conflict],
                    UpdatesNotified [sample_update\<lparr>u_id := ''update_1_a'', u_timestamp := 1\<rparr>],
                    AppliedResolved ''annotations''
                      (JObj [(''content'', JStr ''mine''), (''color'', JStr ''red'')]),
                    ConflictsNotified [],
                    UpdatesNotified []] \<rparr>)"
proof -
  have a: "map_of (updates sample_pending) ''update_1_a'' =
       Some (sample_update\<lparr>u_id := ''update_1_a'', u_timestamp := 1\<rparr>)"
    by (simp add: sample_pending_eq)
  have t: "truthy sample_remote" "\<not> truthy JUndefined"
    by (simp_all add: sample_remote_def)
  have n: "u_conflictResolution sample_update = None" "u_collection sample_update = ''annotations''"
    "u_data sample_update = JObj [(''content'', JStr ''mine''), (''color'', JStr ''red'')]"
    by (simp_all add: sample_update_def)
  note th = resolveUpdate_outcomes [OF a, where s2n = not_numeric and cid = "''conflict_2_b''"
      and now = 2]
  have 1: "resolveUpdate not_numeric ''conflict_2_b'' 2 ''update_1_a'' True JUndefined sample_pending =
       (Normal,
        \<lparr> updates = [], conflicts = [],
          events = [UpdatesNotified [sample_update\<lparr>u_id := ''update_1_a'', u_timestamp := 1\<rparr>],
                    UpdatesNotified []] \<rparr>)"
    using th [where sd = JUndefined]
    by (simp add: sample_pending_eq notifySubscribers_def getPendingUpdates_def)
  have 2: "resolveUpdate not_numeric ''conflict_2_b'' 2 ''update_1_a'' False JUndefined sample_pending =
       (Normal,
        \<lparr> updates = [], conflicts = [],
          events = [UpdatesNotified [sample_update\<lparr>u_id := ''update_1_a'', u_timestamp := 1\<rparr>],
                    UpdatesNotified []] \<rparr>)"
    using th [where sd = JUndefined]
    by (simp add: sample_pending_eq notifySubscribers_def getPendingUpdates_def)
  have 3: "snd (resolveUpdate not_numeric ''conflict_2_b'' 2 ''update_1_a'' False
                        sample_remote sample_pending) = sample_conflicted"
    by (simp add: sample_conflicted_def)
  have 4: "resolveConflict not_numeric ''conflict_2_b''
        \<lparr> strategy = LastWriterWins, version = None, mergeFunction = None \<rparr> sample_conflicted =
       (Normal,
        \<lparr> updates = [], conflicts = [],
          events = [UpdatesNotified [sample_update\<lparr>u_id := ''update_1_a'', u_timestamp := 1\<rparr>],
                    ConflictsNotified [sample_conflict],
                    UpdatesNotified [sample_update\<lparr>u_id := ''update_1_a'', u_timestamp := 1\<rparr>],
                    AppliedResolved ''annotations''
                      (JObj [(''content'', JStr ''mine''), (''color'', JStr ''red'')]),
                    ConflictsNotified [],
                    UpdatesNotified []] \<rparr>)"
    by (simp add: resolveConflict_def sample_conflict_lookup finishResolution_def
        sample_conflict_fields applyResolvedData_def notifySubscribers_def
        notifyConflictSubscribers_def getPendingUpdates_def getActiveConflicts_def Let_def)
       (simp add: sample_conflicted_eq)
  show ?thesis
    using a 1 2 4 by (simp add: 3 sample_conflicted_eq)
qed

text \<open>The sample conflict (remote version 1) under each strategy, and local version 1
  against remote version 2.\<close>

theorem resolveConflict_strategies_witness:
  "map_of (conflicts sample_conflicted) ''conflict_2_b'' = Some sample_conflict
   \<and> resolveConflict not_numeric ''conflict_2_b''
        \<lparr> strategy = LastWriterWins, version = None, mergeFunction = None \<rparr> sample_conflicted =
       (Normal, finishResolution ''conflict_2_b'' sample_conflict
          (JObj [(''content'', JStr ''mine''), (''color'', JStr ''red'')]) sample_conflicted)
   \<and> resolveConflict not_numeric ''conflict_2_b''
        \<lparr> strategy = Merge, version = None, mergeFunction = None \<rparr> sample_conflicted =
       (Normal, finishResolution ''conflict_2_b'' sample_conflict
          (JObj [(''content'', JStr ''mine''), (''version'', JNum (Fin 1)),
                 (''color'', JStr ''red'')]) sample_conflicted)
   \<and> resolveConflict not_numeric ''conflict_2_b''
        \<lparr> strategy = Merge, version = None, mergeFunction = Some spread2 \<rparr> sample_conflicted =
       (Normal, finishResolution ''conflict_2_b'' sample_conflict
          (JObj [(''content'', JStr ''theirs''), (''color'', JStr ''red''),
                 (''version'', JNum (Fin 1))]) sample_conflicted)
   \<and> resolveConflict not_numeric ''conflict_2_b''
        \<lparr> strategy = VersionBased, version = Some (Fin 2), mergeFunction = None \<rparr>
        sample_conflicted =
       (Normal, finishResolution ''conflict_2_b'' sample_conflict
          (JObj [(''content'', JStr ''mine''), (''color'', JStr ''red'')]) sample_conflicted)
   \<and> resolveConflict not_numeric ''k''
        \<lparr> strategy = VersionBased, version = Some (Fin 1), mergeFunction = None \<rparr>
        \<lparr> updates = [],
          conflicts = [(''k'', sample_conflict\<lparr>c_remoteData :=
                                JObj [(''version'', JNum (Fin 2))]\<rparr>)],
          events = [] \<rparr> =
       (Normal,
        \<lparr> updates = [], conflicts = [],
          events = [AppliedResolved ''annotations'' (JObj [(''version'', JNum (Fin 2))]),
                    ConflictsNotified [], UpdatesNotified []] \<rparr>)"
proof -
  have a: "map_of (conflicts sample_conflicted) ''conflict_2_b'' = Some sample_conflict"
    by (rule sample_conflict_lookup)
  note th = resolveConflict_strategies [OF a, where s2n = not_numeric]
  have 1: "resolveConflict not_numeric ''conflict_2_b''
        \<lparr> strategy = LastWriterWins, version = None, mergeFunction = None \<rparr> sample_conflicted =
       (Normal, finishResolution ''conflict_2_b'' sample_conflict
          (JObj [(''content'', JStr ''mine''), (''color'', JStr ''red'')]) sample_conflicted)"
    using th [where r = "\<lparr> strategy = LastWriterWins, version = None, mergeFunction = None \<rparr>"]
    by (simp add: sample_conflict_fields)
  have 2: "resolveConflict not_numeric ''conflict_2_b''
        \<lparr> strategy = Merge, version = None, mergeFunction = None \<rparr> sample_conflicted =
       (Normal, finishResolution ''conflict_2_b'' sample_conflict
          (JObj [(''content'', JStr ''mine''), (''version'', JNum (Fin 1)),
                 (''color'', JStr ''red'')]) sample_conflicted)"
    using th [where r = "\<lparr> strategy = Merge, version = None, mergeFunction = None \<rparr>"]
    by (simp add: sample_conflict_fields spread2_def spread_into_def)
  have 3: "resolveConflict not_numeric ''conflict_2_b''
        \<lparr> strategy = Merge, version = None, mergeFunction = Some spread2 \<rparr> sample_conflicted =
       (Normal, finishResolution ''conflict_2_b'' sample_conflict
          (JObj [(''content'', JStr ''theirs''), (''color'', JStr ''red''),
                 (''version'', JNum (Fin 1))]) sample_conflicted)"
    using th [where r = "\<lparr> strategy = Merge, version = None, mergeFunction = Some spread2 \<rparr>"]
    by (simp add: sample_conflict_fields spread2_def spread_into_def)
  have 4: "resolveConflict not_numeric ''conflict_2_b''
        \<lparr> strategy = VersionBased, version = Some (Fin 2), mergeFunction = None \<rparr>
        sample_conflicted =
       (Normal, finishResolution ''conflict_2_b'' sample_conflict
          (JObj [(''content'', JStr ''mine''), (''color'', JStr ''red'')]) sample_conflicted)"
    using th [where r = "\<lparr> strategy = VersionBased, version = Some (Fin 2),
                            mergeFunction = None \<rparr>",
        THEN conjunct2, THEN conjunct2, THEN conjunct2, THEN conjunct2, THEN conjunct1,
        rule_format,
        where lv = "Some 2" and rv = "Some 1"
          and rf = "[(''content'', JStr ''theirs''), (''version'', JNum (Fin 1))]"]
    by (simp add: sample_conflict_fields)
  have 5: "resolveConflict not_numeric ''k''
        \<lparr> strategy = VersionBased, version = Some (Fin 1), mergeFunction = None \<rparr>
        \<lparr> updates = [],
          conflicts = [(''k'', sample_conflict\<lparr>c_remoteData :=
                                JObj [(''version'', JNum (Fin 2))]\<rparr>)],
          events = [] \<rparr> =
       (Normal,
        \<lparr> updates = [], conflicts = [],
          events = [AppliedResolved ''annotations'' (JObj [(''version'', JNum (Fin 2))]),
                    ConflictsNotified [], UpdatesNotified []] \<rparr>)"
    by (simp add: resolveConflict_def finishResolution_def num_truthy_def
        sample_conflict_fields applyResolvedData_def notifySubscribers_def
        notifyConflictSubscribers_def getPendingUpdates_def getActiveConflicts_def Let_def)
  from a 1 2 3 4 5 show ?thesis by blast
qed

text \<open>Local version 1 against the sample conflict's remote version 1.\<close>

theorem version_tie_goes_to_remote_witness:
  "map_of (conflicts sample_conflicted) ''conflict_2_b'' = Some sample_conflict
   \<and> c_remoteData sample_conflict =
       JObj [(''content'', JStr ''theirs''), (''version'', JNum (Fin 1))]
   \<and> resolveConflict not_numeric ''conflict_2_b''
        \<lparr> strategy = VersionBased, version = Some (Fin 1), mergeFunction = None \<rparr>
        sample_conflicted =
       (Normal, finishResolution ''conflict_2_b'' sample_conflict
          (JObj [(''content'', JStr ''theirs''), (''version'', JNum (Fin 1))]) sample_conflicted)
   \<and> events (finishResolution ''conflict_2_b'' sample_conflict
          (JObj [(''content'', JStr ''theirs''), (''version'', JNum (Fin 1))]) sample_conflicted) =
       [UpdatesNotified [sample_update\<lparr>u_id := ''update_1_a'', u_timestamp := 1\<rparr>],
        ConflictsNotified [sample_conflict],
        UpdatesNotified [sample_update\<lparr>u_id := ''update_1_a'', u_timestamp := 1\<rparr>],
        AppliedResolved ''annotations''
          (JObj [(''content'', JStr ''theirs''), (''version'', JNum (Fin 1))]),
        ConflictsNotified [],
        UpdatesNotified []]"
proof -
  have a: "map_of (conflicts sample_conflicted) ''conflict_2_b'' = Some sample_conflict"
    by (rule sample_conflict_lookup)
  have b: "strategy \<lparr> strategy = VersionBased, version = Some (Fin 1), mergeFunction = None \<rparr>
             = VersionBased" by simp
  have c: "version \<lparr> strategy = VersionBased, version = Some (Fin 1), mergeFunction = None \<rparr>
             = map_option Fin (Some 1)" by simp
  have d: "c_remoteData sample_conflict =
             JObj [(''content'', JStr ''theirs''), (''version'', JNum (Fin 1))]"
    by (rule sample_conflict_fields)
  have e: "map_of [(''content'', JStr ''theirs''), (''version'', JNum (Fin 1))] ''version'' =
             map_option (\<lambda>v. JNum (Fin v)) (Some 1)" by simp
  have f: "(case Some 1 of None \<Rightarrow> 0 | Some v \<Rightarrow> v) = (case Some 1 of None \<Rightarrow> 0 | Some v \<Rightarrow> (v::real))"
    by simp
  show ?thesis
    using a d version_tie_goes_to_remote [OF a b c d e f, of not_numeric]
    by (simp add: sample_conflict_fields) (simp add: sample_conflicted_eq)
qed

end
